theory Spec2Isabelle
  imports Complex_Main
begin

section \<open>Python values shared by both modules\<close>

text \<open>
  Exceptions are values. Each constructor is a Python exception class; the string is the
  message (for \<open>UnboundLocalError\<close> and \<open>AttributeError\<close> the name that is missing, since
  the interpreter's wording changes between versions).
\<close>

datatype error =
    AssertionError string
  | ValueError string
  | UnboundLocalError string
  | AttributeError string
  | ZeroDivisionError
  | RuntimeError string
  | TypeError string

definition ebind :: "error + 'a \<Rightarrow> ('a \<Rightarrow> error + 'b) \<Rightarrow> error + 'b" where
  "ebind r f = (case r of Inl e \<Rightarrow> Inl e | Inr x \<Rightarrow> f x)"

definition py_assert :: "bool \<Rightarrow> string \<Rightarrow> error + unit" where
  "py_assert c msg = (if c then Inr () else Inl (AssertionError msg))"

text \<open>Two apostrophes in a row, as the assertion message of line 50 writes them.\<close>

definition apos2 :: string where
  "apos2 = [CHR 0x27, CHR 0x27]"

text \<open>Python's \<open>needle in haystack\<close> for strings.\<close>

fun str_contains :: "string \<Rightarrow> string \<Rightarrow> bool" where
  "str_contains [] needle = (needle = [])"
| "str_contains (c # cs) needle =
     (take (length needle) (c # cs) = needle \<or> str_contains cs needle)"

section \<open>model/final\_model.py: the constructor of FinalModel\<close>

text \<open>
  The keyword arguments of \<open>FinalModel.__init__\<close>. \<open>norm_before_act\<close> is compared with
  \<open>is None\<close> and \<open>is True\<close>, so it is a boolean or \<open>None\<close>; \<open>use_reduced_head_dims\<close> is an
  integer or \<open>None\<close>; \<open>attention_activation_function\<close> is a string or \<open>None\<close>.
\<close>

record config =
  apply_final_activation :: bool
  multi_label_training :: bool
  input_channel :: int
  num_classes :: int
  drop_out_first_conv_blocks :: real
  drop_out_second_conv_blocks :: real
  drop_out_gru :: real
  dropout_last_bn :: real
  mid_kernel_size_first_conv_blocks :: int
  mid_kernel_size_second_conv_blocks :: int
  last_kernel_size_first_conv_blocks :: int
  last_kernel_size_second_conv_blocks :: int
  stride_first_conv_blocks :: int
  stride_second_conv_blocks :: int
  down_sample :: string
  vary_channels :: bool
  pos_skip :: string
  norm_type :: string
  norm_pos :: string
  norm_before_act :: "bool option"
  use_pre_activation_design :: bool
  use_pre_conv :: bool
  pre_conv_kernel :: int
  gru_units :: int
  dropout_attention :: real
  heads :: int
  discard_FC_before_MH :: bool
  use_reduced_head_dims :: "int option"
  attention_activation_function :: "string option"
  attention_type :: string

text \<open>
  The signature's defaults (lines 12 to 26); the two arguments without a default are
  parameters.
\<close>

definition default_config :: "bool \<Rightarrow> bool \<Rightarrow> config" where
  "default_config afa mlt =
     \<lparr> apply_final_activation = afa, multi_label_training = mlt,
       input_channel = 12, num_classes = 9,
       drop_out_first_conv_blocks = 0.2, drop_out_second_conv_blocks = 0.2,
       drop_out_gru = 0.2, dropout_last_bn = 0.2,
       mid_kernel_size_first_conv_blocks = 3, mid_kernel_size_second_conv_blocks = 3,
       last_kernel_size_first_conv_blocks = 24, last_kernel_size_second_conv_blocks = 48,
       stride_first_conv_blocks = 2, stride_second_conv_blocks = 2,
       down_sample = ''conv'', vary_channels = True, pos_skip = ''not_last'',
       norm_type = ''BN'', norm_pos = ''all'', norm_before_act = Some True,
       use_pre_activation_design = True, use_pre_conv = True,
       pre_conv_kernel = 16,
       gru_units = 12, dropout_attention = 0.2, heads = 3,
       discard_FC_before_MH = False,
       use_reduced_head_dims = None,
       attention_activation_function = None,
       attention_type = ''v2'' \<rparr>"

text \<open>
  The arguments the residual blocks are built with, and those of the attention layers.
\<close>

record block_args =
  in_channels :: int
  out_channels :: int
  mid_kernels_size :: int
  last_kernel_size :: int
  stride :: int
  blk_down_sample :: string
  drop_out :: real
  blk_norm_type :: string
  blk_norm_pos :: string

record attn_args =
  d_model :: int
  att_dropout :: real
  att_heads :: int
  att_discard_FC_before_MH :: bool

text \<open>
  A sub-module, as the constructor call that makes it. The first group are \<open>torch.nn\<close>
  layers; the second group are the classes of \<open>layers/\<close> that FinalModel imports.
  \<open>MultiHeadContextualAttention\<close> receives \<open>use_reduced_head_dims\<close> as an integer or
  \<open>False\<close> (here \<open>None\<close>).
\<close>

datatype layer =
    Conv1d int int int
  | BatchNorm1d int
  | InstanceNorm1d int bool
  | LeakyReLU real
  | Dropout real
  | Sequential "layer list"
  | GRU int int int bool bool
  | Linear int int
  | Sigmoid
  | LogSoftmax int
  | BasicBlock1dWithNormPreactivation block_args "bool option"
  | BasicBlock1dWithNorm block_args bool
  | MultiHeadContextualAttention attn_args "int option" string
  | MultiHeadContextualAttentionV2 attn_args
  | MultiHeadContextualAttentionV3 attn_args
  | MultiHeadContextualAttentionV4 attn_args
  | MultiHeadContextualAttentionV5 attn_args

text \<open>
  The constructors of the sub-modules are not part of \<open>final_model.py\<close>: \<open>raises\<close> is the
  parameter that says which constructor calls raise, and with what.
\<close>

definition construct :: "(layer \<Rightarrow> error option) \<Rightarrow> layer \<Rightarrow> error + layer" where
  "construct raises l = (case raises l of Some e \<Rightarrow> Inl e | None \<Rightarrow> Inr l)"

text \<open>
  Modelled from the spec: the constructors of the residual blocks and of the attention
  layers (\<open>layers/BasicBlock1dWithNorm.py\<close>, \<open>layers/BasicBlock1dWithNormPreActivationDesign.py\<close>,
  \<open>layers/ContextualAttention.py\<close>) are missing. Section 4.4 of the spec gives one
  error condition: a residual block with an unrecognised downsampling strategy fails at
  construction. Every other constructor call is taken to succeed.
\<close>

definition valid_down_sample :: "string \<Rightarrow> bool" where
  "valid_down_sample s = (s = ''conv'' \<or> s = ''max_pool'' \<or> s = ''avg_pool'')"

fun spec_raises :: "layer \<Rightarrow> error option" where
  "spec_raises (BasicBlock1dWithNormPreactivation a nb) =
     (if valid_down_sample (blk_down_sample a) then None
      else Some (AssertionError ''unrecognised downsampling strategy''))"
| "spec_raises (BasicBlock1dWithNorm a sk) =
     (if valid_down_sample (blk_down_sample a) then None
      else Some (AssertionError ''unrecognised downsampling strategy''))"
| "spec_raises l = None"

text \<open>
  The attributes of a constructed FinalModel. An attribute that \<open>__init__\<close> may leave
  unset is an option: reading it when unset raises \<open>AttributeError\<close>.
\<close>

record FinalModel =
  self_apply_final_activation :: bool
  self_pos_skip :: string
  self_use_pre_conv :: bool
  self_use_pre_activation_design :: bool
  self_starting_conv :: "layer option"
  self_first_conv_block_1 :: "layer option"
  self_first_conv_block_2 :: "layer option"
  self_first_conv_block_3 :: "layer option"
  self_first_conv_block_4 :: "layer option"
  self_second_conv_block_1 :: "layer option"
  self_biGRU :: layer
  self_biGru_activation_do :: layer
  self_multi_head_contextual_attention :: layer
  self_batchNorm :: layer
  self_fcn :: layer
  self_final_activation :: "layer option"

text \<open>Lines 36 to 56: the assertions, in the order of the source.\<close>

definition msg_down_sample :: string where
  "msg_down_sample = ''Downsampling should either be conv or max_pool or avg_pool''"

definition msg_reduced_head_dims :: string where
  "msg_reduced_head_dims = ''use_reduced_head_dims can only be used with attention_type=v1!''"

definition msg_attention_activation :: string where
  "msg_attention_activation =
     ''attention_activation_function can only be used with attention_type=v1!''"

definition msg_divisible :: string where
  "msg_divisible =
     ''Twice the number of GRU cells (d_model) must be divisible by num_heads!''"

definition msg_pos_skip :: string where
  "msg_pos_skip =
     ''For the preactivation design, '' @ apos2 @ ''not first'' @ apos2 @ '' is no valid''
     @ ''option for the skip connections! Choose between '' @ apos2 @ ''all'' @ apos2 @ '' ''
     @ ''and '' @ apos2 @ ''not last'' @ apos2"

definition msg_norm_before_act :: string where
  "msg_norm_before_act =
     ''Norm after activation not possible without '' @ ''preactivation design''"

text \<open>
  \<open>if use_reduced_head_dims:\<close> is Python truthiness: \<open>None\<close> and \<open>0\<close> are false.
  \<open>(2 * gru_units) % heads\<close> raises \<open>ZeroDivisionError\<close> when \<open>heads\<close> is \<open>0\<close>; otherwise
  Python's \<open>%\<close> is the floored remainder, which is \<open>mod\<close> on \<open>int\<close>.
\<close>

definition truthy_int_opt :: "int option \<Rightarrow> bool" where
  "truthy_int_opt v = (case v of None \<Rightarrow> False | Some n \<Rightarrow> n \<noteq> 0)"

definition check_divisible :: "config \<Rightarrow> error + unit" where
  "check_divisible c =
     (if truthy_int_opt (use_reduced_head_dims c) then
        (if heads c = 0 then Inl ZeroDivisionError
         else py_assert ((2 * gru_units c) mod heads c = 0) msg_divisible)
      else Inr ())"

definition check_design :: "config \<Rightarrow> error + unit" where
  "check_design c =
     (if use_pre_activation_design c then
        py_assert (pos_skip c = ''all'' \<or> pos_skip c = ''not_last'') msg_pos_skip
      else
        py_assert (norm_before_act c = None \<or> norm_before_act c = Some True)
          msg_norm_before_act)"

definition check_config :: "config \<Rightarrow> error + unit" where
  "check_config c =
     ebind (py_assert (down_sample c = ''conv'' \<or> down_sample c = ''max_pool''
                       \<or> down_sample c = ''avg_pool'') msg_down_sample) (\<lambda>_.
     ebind (py_assert (use_reduced_head_dims c = None \<or> attention_type c = ''v1'')
              msg_reduced_head_dims) (\<lambda>_.
     ebind (py_assert (attention_activation_function c = None \<or> attention_type c = ''v1'')
              msg_attention_activation) (\<lambda>_.
     ebind (check_divisible c) (\<lambda>_.
     check_design c))))"

text \<open>Lines 62 to 70: the channel widths of the five blocks.\<close>

definition out_channel_blocks :: "config \<Rightarrow> int \<times> int \<times> int \<times> int \<times> int" where
  "out_channel_blocks c = (if vary_channels c then (24, 48, 48, 24, 12) else (12, 12, 12, 12, 12))"

definition construct_all :: "(layer \<Rightarrow> error option) \<Rightarrow> layer list \<Rightarrow> error + layer list" where
  "construct_all raises ls =
     foldr (\<lambda>l rest. ebind (construct raises l) (\<lambda>x. ebind rest (\<lambda>xs. Inr (x # xs)))) ls (Inr [])"

text \<open>
  Lines 72 to 89. \<open>starting_norm\<close> is bound only for the norm types \<open>BN\<close> and \<open>IN\<close>;
  the arguments of \<open>nn.Sequential\<close> are evaluated left to right, so the convolution is
  built before the unbound name is read.
\<close>

definition read_local :: "string \<Rightarrow> 'a option \<Rightarrow> error + 'a" where
  "read_local name v = (case v of None \<Rightarrow> Inl (UnboundLocalError name) | Some x \<Rightarrow> Inr x)"

definition build_starting_norm :: "(layer \<Rightarrow> error option) \<Rightarrow> config \<Rightarrow> error + layer option" where
  "build_starting_norm raises c =
     (if norm_type c = ''BN'' then
        ebind (construct raises (BatchNorm1d (input_channel c))) (\<lambda>n. Inr (Some n))
      else if norm_type c = ''IN'' then
        ebind (construct raises (InstanceNorm1d (input_channel c) True)) (\<lambda>n. Inr (Some n))
      else Inr None)"

definition build_starting_conv :: "(layer \<Rightarrow> error option) \<Rightarrow> config \<Rightarrow> error + layer option" where
  "build_starting_conv raises c =
     (if use_pre_activation_design c \<and> use_pre_conv c then
        ebind (build_starting_norm raises c) (\<lambda>starting_norm.
        ebind (construct raises
                 (Conv1d (input_channel c) (input_channel c) (pre_conv_kernel c))) (\<lambda>conv.
        if norm_before_act c = Some True then
          ebind (read_local ''starting_norm'' starting_norm) (\<lambda>norm.
          ebind (construct raises (LeakyReLU 0.3)) (\<lambda>act.
          ebind (construct raises (Sequential [conv, norm, act])) (\<lambda>s. Inr (Some s))))
        else
          ebind (construct raises (LeakyReLU 0.3)) (\<lambda>act.
          ebind (read_local ''starting_norm'' starting_norm) (\<lambda>norm.
          ebind (construct raises (Sequential [conv, act, norm])) (\<lambda>s. Inr (Some s))))))
      else Inr None)"

text \<open>Lines 91 to 225: the four first-stage blocks and the second-stage block.\<close>

definition first_args :: "config \<Rightarrow> int \<Rightarrow> int \<Rightarrow> block_args" where
  "first_args c cin cout =
     \<lparr> in_channels = cin, out_channels = cout,
       mid_kernels_size = mid_kernel_size_first_conv_blocks c,
       last_kernel_size = last_kernel_size_first_conv_blocks c,
       stride = stride_first_conv_blocks c,
       blk_down_sample = down_sample c,
       drop_out = drop_out_first_conv_blocks c,
       blk_norm_type = norm_type c, blk_norm_pos = norm_pos c \<rparr>"

definition second_args :: "config \<Rightarrow> int \<Rightarrow> int \<Rightarrow> block_args" where
  "second_args c cin cout =
     \<lparr> in_channels = cin, out_channels = cout,
       mid_kernels_size = mid_kernel_size_second_conv_blocks c,
       last_kernel_size = last_kernel_size_second_conv_blocks c,
       stride = stride_second_conv_blocks c,
       blk_down_sample = down_sample c,
       drop_out = drop_out_second_conv_blocks c,
       blk_norm_type = norm_type c, blk_norm_pos = norm_pos c \<rparr>"

definition construct_opt :: "(layer \<Rightarrow> error option) \<Rightarrow> layer \<Rightarrow> error + layer option" where
  "construct_opt raises l = ebind (construct raises l) (\<lambda>x. Inr (Some x))"

record conv_blocks =
  cb_first_1 :: "layer option"
  cb_first_2 :: "layer option"
  cb_first_3 :: "layer option"
  cb_first_4 :: "layer option"
  cb_second_1 :: "layer option"

definition build_conv_blocks :: "(layer \<Rightarrow> error option) \<Rightarrow> config \<Rightarrow> error + conv_blocks" where
  "build_conv_blocks raises c =
     (case out_channel_blocks c of (o1, o2, o3, o4, o5) \<Rightarrow>
      if use_pre_activation_design c then
        ebind (construct_opt raises (BasicBlock1dWithNormPreactivation
                 (first_args c (input_channel c) o1) (norm_before_act c))) (\<lambda>b1.
        ebind (construct_opt raises (BasicBlock1dWithNormPreactivation
                 (first_args c o1 o2) (norm_before_act c))) (\<lambda>b2.
        ebind (construct_opt raises (BasicBlock1dWithNormPreactivation
                 (first_args c o2 o3) (norm_before_act c))) (\<lambda>b3.
        ebind (construct_opt raises (BasicBlock1dWithNormPreactivation
                 (first_args c o3 o4) (norm_before_act c))) (\<lambda>b4.
        ebind (if pos_skip c = ''all'' then
                 construct_opt raises (BasicBlock1dWithNormPreactivation
                   (second_args c o4 o5) (norm_before_act c))
               else if pos_skip c = ''not_last'' then
                 construct_opt raises (BasicBlock1dWithNorm (second_args c o4 o5) False)
               else Inr None) (\<lambda>s1.
        Inr \<lparr> cb_first_1 = b1, cb_first_2 = b2, cb_first_3 = b3, cb_first_4 = b4,
              cb_second_1 = s1 \<rparr>)))))
      else
        ebind (if pos_skip c = ''all'' \<or> pos_skip c = ''not_last'' then
                 construct_opt raises (BasicBlock1dWithNorm
                   (first_args c (input_channel c) o1) True)
               else if pos_skip c = ''not_first'' then
                 construct_opt raises (BasicBlock1dWithNorm
                   (first_args c (input_channel c) o1) False)
               else Inr None) (\<lambda>b1.
        ebind (construct_opt raises (BasicBlock1dWithNorm (first_args c o1 o2) True)) (\<lambda>b2.
        ebind (construct_opt raises (BasicBlock1dWithNorm (first_args c o2 o3) True)) (\<lambda>b3.
        ebind (construct_opt raises (BasicBlock1dWithNorm (first_args c o3 o4) True)) (\<lambda>b4.
        ebind (if pos_skip c = ''all'' \<or> pos_skip c = ''not_first'' then
                 construct_opt raises (BasicBlock1dWithNorm (second_args c o4 o5) True)
               else if pos_skip c = ''not_last'' then
                 construct_opt raises (BasicBlock1dWithNorm (second_args c o4 o5) False)
               else Inr None) (\<lambda>s1.
        Inr \<lparr> cb_first_1 = b1, cb_first_2 = b2, cb_first_3 = b3, cb_first_4 = b4,
              cb_second_1 = s1 \<rparr>))))))"

text \<open>Lines 239 to 275: the \<open>match\<close> on the attention type.\<close>

definition msg_attention_type :: "string \<Rightarrow> string" where
  "msg_attention_type t = ''Attention type '' @ t @ '' not supported!''"

definition attention_args :: "config \<Rightarrow> attn_args" where
  "attention_args c =
     \<lparr> d_model = 2 * gru_units c, att_dropout = dropout_attention c, att_heads = heads c,
       att_discard_FC_before_MH = discard_FC_before_MH c \<rparr>"

definition build_attention :: "(layer \<Rightarrow> error option) \<Rightarrow> config \<Rightarrow> error + layer" where
  "build_attention raises c =
     (if attention_type c = ''v1'' then
        construct raises (MultiHeadContextualAttention (attention_args c)
          (use_reduced_head_dims c)
          (case attention_activation_function c of None \<Rightarrow> ''softmax'' | Some a \<Rightarrow> a))
      else if attention_type c = ''v2'' then
        construct raises (MultiHeadContextualAttentionV2 (attention_args c))
      else if attention_type c = ''v3'' then
        construct raises (MultiHeadContextualAttentionV3 (attention_args c))
      else if attention_type c = ''v4'' then
        construct raises (MultiHeadContextualAttentionV4 (attention_args c))
      else if attention_type c = ''v5'' then
        construct raises (MultiHeadContextualAttentionV5 (attention_args c))
      else Inl (ValueError (msg_attention_type (attention_type c))))"

definition construct_seq :: "(layer \<Rightarrow> error option) \<Rightarrow> layer list \<Rightarrow> error + layer" where
  "construct_seq raises ls =
     ebind (construct_all raises ls) (\<lambda>xs. construct raises (Sequential xs))"

definition build_final_activation ::
  "(layer \<Rightarrow> error option) \<Rightarrow> config \<Rightarrow> error + layer option" where
  "build_final_activation raises c =
     (if apply_final_activation c then
        (if multi_label_training c then construct_opt raises Sigmoid
         else construct_opt raises (LogSoftmax 1))
      else Inr None)"

text \<open>\<open>FinalModel.__init__\<close>, lines 33 to 287.\<close>

definition FinalModel_init :: "(layer \<Rightarrow> error option) \<Rightarrow> config \<Rightarrow> error + FinalModel" where
  "FinalModel_init raises c =
     ebind (check_config c) (\<lambda>_.
     ebind (build_starting_conv raises c) (\<lambda>sc.
     ebind (build_conv_blocks raises c) (\<lambda>cb.
     ebind (construct raises (GRU (snd (snd (snd (snd (out_channel_blocks c)))))
              (gru_units c) 1 True True)) (\<lambda>gru.
     ebind (construct_seq raises [LeakyReLU 0.3, Dropout (drop_out_gru c)]) (\<lambda>act_do.
     ebind (build_attention raises c) (\<lambda>att.
     ebind (construct_seq raises
              [BatchNorm1d (gru_units c * 2), LeakyReLU 0.3, Dropout (dropout_last_bn c)]) (\<lambda>bn.
     ebind (construct raises (Linear (gru_units c * 2) (num_classes c))) (\<lambda>fcn.
     ebind (build_final_activation raises c) (\<lambda>fa.
     Inr \<lparr> self_apply_final_activation = apply_final_activation c,
           self_pos_skip = pos_skip c,
           self_use_pre_conv = use_pre_conv c,
           self_use_pre_activation_design = use_pre_activation_design c,
           self_starting_conv = sc,
           self_first_conv_block_1 = cb_first_1 cb,
           self_first_conv_block_2 = cb_first_2 cb,
           self_first_conv_block_3 = cb_first_3 cb,
           self_first_conv_block_4 = cb_first_4 cb,
           self_second_conv_block_1 = cb_second_1 cb,
           self_biGRU = gru,
           self_biGru_activation_do = act_do,
           self_multi_head_contextual_attention = att,
           self_batchNorm = bn,
           self_fcn = fcn,
           self_final_activation = fa \<rparr>)))))))))"

section \<open>model/final\_model.py: the forward pass of FinalModel\<close>

text \<open>
  A value that flows through \<open>forward\<close> is a tensor or a tuple (the pre-activation blocks
  take and return pairs, the GRU returns a pair). The tensors themselves are a type
  parameter: \<open>forward\<close> only hands them on.
\<close>

datatype 't pyval = Tensor 't | Tuple "'t pyval list"

text \<open>
  The sub-modules are called, never inspected. Their behaviour is the environment:
  \<open>call\<close> runs the forward pass of the sub-module stored under an attribute name on an
  argument, in a state \<open>'s\<close> that stands for everything the sub-modules keep between
  calls (running statistics, random draws of dropout); \<open>permute\<close> is \<open>Tensor.permute\<close>
  and \<open>iterate\<close> is the iteration over a tensor's first axis, which is what unpacking a
  tensor into two names does.
\<close>

record ('t, 's) env =
  call :: "string \<Rightarrow> layer \<Rightarrow> 't pyval \<Rightarrow> 's \<Rightarrow> (error + 't pyval) \<times> 's"
  permute :: "'t \<Rightarrow> nat list \<Rightarrow> error + 't"
  iterate :: "'t \<Rightarrow> error + 't list"

definition sbind ::
  "('s \<Rightarrow> (error + 'a) \<times> 's) \<Rightarrow> ('a \<Rightarrow> 's \<Rightarrow> (error + 'b) \<times> 's) \<Rightarrow> 's \<Rightarrow> (error + 'b) \<times> 's" where
  "sbind m f s = (case m s of (Inl e, s') \<Rightarrow> (Inl e, s') | (Inr x, s') \<Rightarrow> f x s')"

definition sreturn :: "'a \<Rightarrow> 's \<Rightarrow> (error + 'a) \<times> 's" where
  "sreturn x s = (Inr x, s)"

definition slift :: "error + 'a \<Rightarrow> 's \<Rightarrow> (error + 'a) \<times> 's" where
  "slift r s = (r, s)"

text \<open>\<open>self.<name>(v)\<close>: the attribute is read first, then called.\<close>

definition call_attr ::
  "('t, 's) env \<Rightarrow> string \<Rightarrow> layer option \<Rightarrow> 't pyval \<Rightarrow> 's \<Rightarrow> (error + 't pyval) \<times> 's" where
  "call_attr E name attr v =
     (case attr of None \<Rightarrow> slift (Inl (AttributeError name))
      | Some l \<Rightarrow> call E name l v)"

text \<open>\<open>a, b = v\<close>: a tuple must have two items; a tensor is iterated over its first axis.\<close>

definition two_items :: "'t pyval list \<Rightarrow> error + 't pyval \<times> 't pyval" where
  "two_items vs =
     (case vs of [a, b] \<Rightarrow> Inr (a, b)
      | _ \<Rightarrow> Inl (ValueError (if length vs < 2 then ''not enough values to unpack''
                               else ''too many values to unpack'')))"

definition unpack2 :: "('t, 's) env \<Rightarrow> 't pyval \<Rightarrow> error + 't pyval \<times> 't pyval" where
  "unpack2 E v =
     (case v of Tuple vs \<Rightarrow> two_items vs
      | Tensor t \<Rightarrow> ebind (iterate E t) (\<lambda>ts. two_items (map Tensor ts)))"

text \<open>\<open>x.permute(0, 2, 1)\<close>: a tuple has no such method.\<close>

definition permute_val :: "('t, 's) env \<Rightarrow> 't pyval \<Rightarrow> error + 't pyval" where
  "permute_val E v =
     (case v of Tensor t \<Rightarrow> ebind (permute E t [0, 2, 1]) (\<lambda>r. Inr (Tensor r))
      | Tuple vs \<Rightarrow> Inl (AttributeError ''permute''))"

text \<open>Lines 290 to 313: the convolutional stage, in its two designs.\<close>

definition conv_stage ::
  "('t, 's) env \<Rightarrow> FinalModel \<Rightarrow> 't pyval \<Rightarrow> 's \<Rightarrow> (error + 't pyval) \<times> 's" where
  "conv_stage E m x =
     (if self_use_pre_activation_design m then
        sbind (if self_use_pre_conv m
               then call_attr E ''_starting_conv'' (self_starting_conv m) x
               else sreturn x) (\<lambda>x.
        sbind (call_attr E ''_first_conv_block_1'' (self_first_conv_block_1 m) (Tuple [x, x])) (\<lambda>x.
        sbind (call_attr E ''_first_conv_block_2'' (self_first_conv_block_2 m) x) (\<lambda>x.
        sbind (call_attr E ''_first_conv_block_3'' (self_first_conv_block_3 m) x) (\<lambda>x.
        sbind (call_attr E ''_first_conv_block_4'' (self_first_conv_block_4 m) x) (\<lambda>x.
        sbind (if self_pos_skip m = ''all'' then
                 call_attr E ''_second_conv_block_1'' (self_second_conv_block_1 m) x
               else if self_pos_skip m = ''not_last'' then
                 sbind (slift (unpack2 E x)) (\<lambda>(x, residuals).
                 call_attr E ''_second_conv_block_1'' (self_second_conv_block_1 m) x)
               else sreturn x) (\<lambda>x.
        if self_pos_skip m = ''all'' then
          sbind (slift (unpack2 E x)) (\<lambda>(x, residuals). sreturn x)
        else sreturn x))))))
      else
        sbind (call_attr E ''_first_conv_block_1'' (self_first_conv_block_1 m) x) (\<lambda>x.
        sbind (call_attr E ''_first_conv_block_2'' (self_first_conv_block_2 m) x) (\<lambda>x.
        sbind (call_attr E ''_first_conv_block_3'' (self_first_conv_block_3 m) x) (\<lambda>x.
        sbind (call_attr E ''_first_conv_block_4'' (self_first_conv_block_4 m) x) (\<lambda>x.
        call_attr E ''_second_conv_block_1'' (self_second_conv_block_1 m) x)))))"

text \<open>\<open>FinalModel.forward\<close>, lines 289 to 324.\<close>

definition FinalModel_forward ::
  "('t, 's) env \<Rightarrow> FinalModel \<Rightarrow> 't pyval \<Rightarrow> 's \<Rightarrow> (error + 't pyval) \<times> 's" where
  "FinalModel_forward E m x =
     sbind (conv_stage E m x) (\<lambda>x.
     sbind (slift (permute_val E x)) (\<lambda>x.
     sbind (call E ''_biGRU'' (self_biGRU m) x) (\<lambda>g.
     sbind (slift (unpack2 E g)) (\<lambda>(x, last_hidden_state).
     sbind (call E ''_biGru_activation_do'' (self_biGru_activation_do m) x) (\<lambda>x.
     sbind (call E ''_multi_head_contextual_attention''
              (self_multi_head_contextual_attention m) x) (\<lambda>x.
     sbind (call E ''_batchNorm'' (self_batchNorm m) x) (\<lambda>x.
     sbind (call E ''_fcn'' (self_fcn m) x) (\<lambda>x.
     if self_apply_final_activation m then
       call_attr E ''_final_activation'' (self_final_activation m) x
     else sreturn x))))))))"

text \<open>
  An environment that records every sub-module call (attribute name and argument) in
  the state, on top of a pure behaviour \<open>f\<close> of the sub-modules.
\<close>

definition recording ::
  "(string \<Rightarrow> layer \<Rightarrow> 't pyval \<Rightarrow> error + 't pyval) \<Rightarrow> ('t \<Rightarrow> nat list \<Rightarrow> error + 't) \<Rightarrow>
   ('t \<Rightarrow> error + 't list) \<Rightarrow> ('t, (string \<times> 't pyval) list) env" where
  "recording f p it =
     \<lparr> call = (\<lambda>name l v calls. (f name l v, calls @ [(name, v)])),
       permute = p, iterate = it \<rparr>"

text \<open>
  The first-stage residual chain in words: the first block that exists is called on the
  seed; each further block is called on what its predecessor returned; the chain stops at
  an unset attribute or a call that raises. \<open>accumulator_chain\<close> lists the calls this
  makes.
\<close>

fun accumulator_chain ::
  "(string \<Rightarrow> layer \<Rightarrow> 't pyval \<Rightarrow> error + 't pyval) \<Rightarrow> (string \<times> layer option) list \<Rightarrow>
   't pyval \<Rightarrow> (string \<times> 't pyval) list" where
  "accumulator_chain f [] v = []"
| "accumulator_chain f ((name, None) # rest) v = []"
| "accumulator_chain f ((name, Some l) # rest) v =
     (name, v) # (case f name l v of Inl e \<Rightarrow> [] | Inr v' \<Rightarrow> accumulator_chain f rest v')"

definition first_stage_blocks :: "FinalModel \<Rightarrow> (string \<times> layer option) list" where
  "first_stage_blocks m =
     [(''_first_conv_block_1'', self_first_conv_block_1 m),
      (''_first_conv_block_2'', self_first_conv_block_2 m),
      (''_first_conv_block_3'', self_first_conv_block_3 m),
      (''_first_conv_block_4'', self_first_conv_block_4 m)]"

definition first_stage_calls :: "(string \<times> 't pyval) list \<Rightarrow> (string \<times> 't pyval) list" where
  "first_stage_calls calls =
     filter (\<lambda>(name, v). name \<in> {''_first_conv_block_1'', ''_first_conv_block_2'',
                                   ''_first_conv_block_3'', ''_first_conv_block_4''}) calls"

text \<open>The input after the optional pre-convolution.\<close>

definition after_pre_conv ::
  "(string \<Rightarrow> layer \<Rightarrow> 't pyval \<Rightarrow> error + 't pyval) \<Rightarrow> FinalModel \<Rightarrow> 't pyval \<Rightarrow> error + 't pyval" where
  "after_pre_conv f m x =
     (if self_use_pre_conv m then
        (case self_starting_conv m of None \<Rightarrow> Inl (AttributeError ''_starting_conv'')
         | Some sc \<Rightarrow> f ''_starting_conv'' sc x)
      else Inr x)"

section \<open>layers/MultiHeadAttention.py: tensors and the torch operations it calls\<close>

text \<open>
  A rank-3 tensor is its shape and its entries, as nested lists along the three axes.
  The shape is kept beside the entries because an axis of size zero leaves no trace in
  the lists. Entries are real numbers: the arithmetic is that of the reals, not of
  floating point. A tensor is well formed when the lists have the lengths the shape says.
\<close>

record tensor3 =
  dims :: "nat \<times> nat \<times> nat"
  vals :: "real list list list"

definition wf3 :: "tensor3 \<Rightarrow> bool" where
  "wf3 t = (case dims t of (n, l, d) \<Rightarrow>
     length (vals t) = n \<and>
     list_all (\<lambda>m. length m = l \<and> list_all (\<lambda>r. length r = d) m) (vals t))"

definition map_tensor :: "(real \<Rightarrow> real) \<Rightarrow> tensor3 \<Rightarrow> tensor3" where
  "map_tensor f t = t\<lparr>vals := map (map (map f)) (vals t)\<rparr>"

text \<open>
  \<open>nn.Linear\<close>: \<open>weight\<close> has one row per output feature. It acts on the last axis and
  raises when that axis is not \<open>in_features\<close> wide.
\<close>

record linear =
  in_features :: nat
  out_features :: nat
  weight :: "real list list"
  bias :: "real list"

definition dot :: "real list \<Rightarrow> real list \<Rightarrow> real" where
  "dot xs ys = sum_list (map2 (*) xs ys)"

definition Linear_forward :: "linear \<Rightarrow> tensor3 \<Rightarrow> error + tensor3" where
  "Linear_forward W t =
     (case dims t of (n, l, d) \<Rightarrow>
        if d \<noteq> in_features W then
          Inl (RuntimeError ''mat1 and mat2 shapes cannot be multiplied'')
        else
          Inr \<lparr> dims = (n, l, out_features W),
                vals = map (map (\<lambda>row. map2 (\<lambda>w b. dot row w + b) (weight W) (bias W)))
                         (vals t) \<rparr>)"

text \<open>
  \<open>Tensor.chunk(chunks, dim)\<close>: the pieces have size \<open>ceil(n / chunks)\<close>, the last one
  what is left, so there may be fewer than \<open>chunks\<close> of them; an axis of size zero is cut
  into \<open>chunks\<close> empty pieces. \<open>chunks\<close> must be positive.
\<close>

definition chunk_sizes :: "nat \<Rightarrow> nat \<Rightarrow> nat list" where
  "chunk_sizes n chunks =
     (let split_size = (n + chunks - 1) div chunks in
      if split_size = 0 \<and> n = 0 then replicate chunks 0
      else
        (let num = max ((n + split_size - 1) div split_size) 1 in
         replicate (num - 1) split_size @ [n - split_size * (num - 1)]))"

fun offsets :: "nat \<Rightarrow> nat list \<Rightarrow> (nat \<times> nat) list" where
  "offsets off [] = []"
| "offsets off (s # ss) = (off, s) # offsets (off + s) ss"

definition narrow :: "nat \<Rightarrow> nat \<Rightarrow> 'a list \<Rightarrow> 'a list" where
  "narrow off sz xs = take sz (drop off xs)"

definition msg_chunk :: string where
  "msg_chunk = ''chunk expects chunks to be greater than 0''"

definition chunk_dim0 :: "nat \<Rightarrow> tensor3 \<Rightarrow> error + tensor3 list" where
  "chunk_dim0 chunks t =
     (if chunks = 0 then Inl (RuntimeError msg_chunk)
      else case dims t of (n, l, d) \<Rightarrow>
        Inr (map (\<lambda>(off, sz). \<lparr> dims = (sz, l, d), vals = narrow off sz (vals t) \<rparr>)
               (offsets 0 (chunk_sizes n chunks))))"

definition chunk_last :: "nat \<Rightarrow> tensor3 \<Rightarrow> error + tensor3 list" where
  "chunk_last chunks t =
     (if chunks = 0 then Inl (RuntimeError msg_chunk)
      else case dims t of (n, l, d) \<Rightarrow>
        Inr (map (\<lambda>(off, sz). \<lparr> dims = (n, l, sz),
                                 vals = map (map (narrow off sz)) (vals t) \<rparr>)
               (offsets 0 (chunk_sizes d chunks))))"

text \<open>
  \<open>torch.cat(tensors, dim)\<close>: the list must not be empty and the shapes must agree on
  the other two axes.
\<close>

definition msg_cat_empty :: string where
  "msg_cat_empty = ''torch.cat(): expected a non-empty list of Tensors''"

definition msg_cat_sizes :: string where
  "msg_cat_sizes = ''Sizes of tensors must match except in the concatenation dimension''"

definition cat_dim0 :: "tensor3 list \<Rightarrow> error + tensor3" where
  "cat_dim0 ts =
     (case ts of [] \<Rightarrow> Inl (RuntimeError msg_cat_empty)
      | t # rest \<Rightarrow>
        (case dims t of (n, l, d) \<Rightarrow>
           if list_all (\<lambda>u. snd (dims u) = (l, d)) rest then
             Inr \<lparr> dims = (sum_list (map (\<lambda>u. fst (dims u)) ts), l, d),
                   vals = concat (map vals ts) \<rparr>
           else Inl (RuntimeError msg_cat_sizes)))"

definition cat_last :: "tensor3 list \<Rightarrow> error + tensor3" where
  "cat_last ts =
     (case ts of [] \<Rightarrow> Inl (RuntimeError msg_cat_empty)
      | t # rest \<Rightarrow>
        (case dims t of (n, l, d) \<Rightarrow>
           if list_all (\<lambda>u. fst (dims u) = n \<and> fst (snd (dims u)) = l) rest then
             Inr \<lparr> dims = (n, l, sum_list (map (\<lambda>u. snd (snd (dims u))) ts)),
                   vals = map (\<lambda>b. map (\<lambda>i. concat (map (\<lambda>u. vals u ! b ! i) ts)) [0..<l])
                            [0..<n] \<rparr>
           else Inl (RuntimeError msg_cat_sizes)))"

text \<open>\<open>Tensor.transpose(1, 2)\<close> and \<open>torch.bmm\<close>, the batched matrix product.\<close>

definition transpose12 :: "tensor3 \<Rightarrow> tensor3" where
  "transpose12 t =
     (case dims t of (n, l, d) \<Rightarrow>
        \<lparr> dims = (n, d, l),
          vals = map (\<lambda>M. map (\<lambda>c. map (\<lambda>row. row ! c) M) [0..<d]) (vals t) \<rparr>)"

definition matmul_row :: "real list \<Rightarrow> real list list \<Rightarrow> nat \<Rightarrow> real list" where
  "matmul_row row B q = map (\<lambda>c. sum_list (map2 (\<lambda>x brow. x * brow ! c) row B)) [0..<q]"

definition bmm :: "tensor3 \<Rightarrow> tensor3 \<Rightarrow> error + tensor3" where
  "bmm a b =
     (case dims a of (n, p, m) \<Rightarrow>
      case dims b of (n', m', q) \<Rightarrow>
        if n \<noteq> n' \<or> m \<noteq> m' then
          Inl (RuntimeError ''batch1 and batch2 have incompatible shapes'')
        else
          Inr \<lparr> dims = (n, p, q),
                vals = map2 (\<lambda>A B. map (\<lambda>row. matmul_row row B q) A) (vals a) (vals b) \<rparr>)"

text \<open>\<open>F.softmax(x, dim=-1)\<close>: each row along the last axis is normalised.\<close>

definition softmax_row :: "real list \<Rightarrow> real list" where
  "softmax_row r = map (\<lambda>x. exp x / sum_list (map exp r)) r"

definition softmax_last :: "tensor3 \<Rightarrow> tensor3" where
  "softmax_last t = t\<lparr>vals := map (map softmax_row) (vals t)\<rparr>"

text \<open>
  \<open>nn.Dropout(p)\<close> applied to a tensor. Outside training, or with \<open>p = 0\<close>, it is the
  identity; with \<open>p = 1\<close> everything is zeroed; otherwise each entry is kept or zeroed by
  a random draw and the kept ones are scaled by \<open>1 / (1 - p)\<close>. The draw is the argument
  \<open>keep\<close>, which says for each position whether the entry is kept.
\<close>

definition Dropout_forward ::
  "real \<Rightarrow> bool \<Rightarrow> (nat \<Rightarrow> nat \<Rightarrow> nat \<Rightarrow> bool) \<Rightarrow> tensor3 \<Rightarrow> tensor3" where
  "Dropout_forward p train keep t =
     (if \<not> train \<or> p = 0 then t
      else if p = 1 then map_tensor (\<lambda>x. 0) t
      else t\<lparr>vals :=
        map2 (\<lambda>b M. map2 (\<lambda>i row. map2 (\<lambda>j x. if keep b i j then x / (1 - p) else 0)
                                      [0..<length row] row)
                      [0..<length M] M)
          [0..<length (vals t)] (vals t)\<rparr>)"

text \<open>
  \<open>Tensor.squeeze()\<close> without an axis drops every axis of size one, so the result has
  any rank from 0 to 3: it is a shape and the entries in row-major order.
\<close>

record tensor =
  shape :: "nat list"
  flat :: "real list"

definition squeeze :: "tensor3 \<Rightarrow> tensor" where
  "squeeze t =
     (case dims t of (n, l, d) \<Rightarrow>
        \<lparr> shape = filter (\<lambda>k. k \<noteq> 1) [n, l, d], flat = concat (concat (vals t)) \<rparr>)"

section \<open>layers/MultiHeadAttention.py: the module\<close>

text \<open>
  The attributes of a MultiHeadAttention module. \<open>training\<close> is the mode flag of
  \<open>nn.Module\<close>, which \<open>nn.Dropout\<close> reads.
\<close>

record MultiHeadAttention =
  self_h :: nat
  self_k :: nat
  self_discard_FC_before_MH :: bool
  self_W_q :: linear
  self_W_k :: linear
  self_W_v :: linear
  self_W_o :: linear
  self_scores :: "tensor3 option"
  self_dropout :: "real option"
  training :: bool

text \<open>
  \<open>__init__\<close>, lines 37 to 73. The initial weights and biases of the four linear layers
  are drawn at random by torch; here they are the argument \<open>init\<close>. A new module is in
  training mode. The sizes are natural numbers and \<open>dropout\<close> is a probability or \<open>None\<close>:
  the arguments that \<open>nn.Linear\<close> and \<open>nn.Dropout\<close> accept.
\<close>

record initial_parameters =
  W_q_weight :: "real list list"
  W_q_bias :: "real list"
  W_k_weight :: "real list list"
  W_k_bias :: "real list"
  W_v_weight :: "real list list"
  W_v_bias :: "real list"
  W_o_weight :: "real list list"
  W_o_bias :: "real list"

definition MultiHeadAttention_init ::
  "nat \<Rightarrow> nat \<Rightarrow> nat \<Rightarrow> nat \<Rightarrow> nat \<Rightarrow> real option \<Rightarrow> bool \<Rightarrow> initial_parameters \<Rightarrow>
   MultiHeadAttention" where
  "MultiHeadAttention_init dm k q v h dropout discard init =
     \<lparr> self_h = h, self_k = k, self_discard_FC_before_MH = discard,
       self_W_q = \<lparr> in_features = dm, out_features = q * h,
                    weight = W_q_weight init, bias = W_q_bias init \<rparr>,
       self_W_k = \<lparr> in_features = dm, out_features = k * h,
                    weight = W_k_weight init, bias = W_k_bias init \<rparr>,
       self_W_v = \<lparr> in_features = dm, out_features = v * h,
                    weight = W_v_weight init, bias = W_v_bias init \<rparr>,
       self_W_o = \<lparr> in_features = h * v, out_features = dm,
                    weight = W_o_weight init, bias = W_o_bias init \<rparr>,
       self_scores = None,
       self_dropout = dropout,
       training = True \<rparr>"

text \<open>
  \<open>self._W_k\<close> is the linear layer, followed by \<open>nn.Tanh\<close> when
  \<open>discard_FC_before_MH\<close> is set.
\<close>

definition W_k_forward :: "MultiHeadAttention \<Rightarrow> tensor3 \<Rightarrow> error + tensor3" where
  "W_k_forward m t =
     (if self_discard_FC_before_MH m then
        ebind (Linear_forward (self_W_k m) t) (\<lambda>y. Inr (map_tensor tanh y))
      else Linear_forward (self_W_k m) t)"

text \<open>
  \<open>torch.cat(x.chunk(h, dim=-1), dim=0)\<close>, the heads moved onto the batch axis, and
  \<open>torch.cat(x.chunk(h, dim=0), dim=-1)\<close>, the heads moved back onto the feature axis.
\<close>

definition split_heads :: "nat \<Rightarrow> tensor3 \<Rightarrow> error + tensor3" where
  "split_heads h t = ebind (chunk_last h t) cat_dim0"

definition concat_heads :: "nat \<Rightarrow> tensor3 \<Rightarrow> error + tensor3" where
  "concat_heads h t = ebind (chunk_dim0 h t) cat_last"

text \<open>Lines 107 to 109: queries, keys and values, in this order.\<close>

definition project ::
  "MultiHeadAttention \<Rightarrow> tensor3 \<Rightarrow> tensor3 \<Rightarrow> tensor3 \<Rightarrow> error + tensor3 \<times> tensor3 \<times> tensor3" where
  "project m query key val =
     ebind (ebind (Linear_forward (self_W_q m) query) (split_heads (self_h m))) (\<lambda>queries.
     ebind (ebind (W_k_forward m key) (split_heads (self_h m))) (\<lambda>keys.
     ebind (ebind (Linear_forward (self_W_v m) val) (split_heads (self_h m))) (\<lambda>vals'.
     Inr (queries, keys, vals'))))"

text \<open>
  Line 112: \<open>torch.bmm(queries, keys.transpose(1, 2)) / np.sqrt(self._k)\<close>. (For
  \<open>self._k = 0\<close> floating point gives \<open>nan\<close> or \<open>inf\<close> where the reals of HOL give \<open>0\<close>:
  the properties about the values of the scores are stated for \<open>0 < self._k\<close>.)
\<close>

definition attention_scores :: "nat \<Rightarrow> tensor3 \<Rightarrow> tensor3 \<Rightarrow> error + tensor3" where
  "attention_scores k queries keys =
     ebind (bmm queries (transpose12 keys)) (\<lambda>s. Inr (map_tensor (\<lambda>x. x / sqrt (real k)) s))"

text \<open>
  Lines 112 to 120, the scaled dot-product attention. \<open>self._scores\<close> is assigned three
  times: the scaled scores, their softmax, and (when the module has a dropout layer) the
  output of dropout. The module is returned with the result, also when line 120 raises.
\<close>

definition attend ::
  "MultiHeadAttention \<Rightarrow> (nat \<Rightarrow> nat \<Rightarrow> nat \<Rightarrow> bool) \<Rightarrow> tensor3 \<Rightarrow> tensor3 \<Rightarrow> tensor3 \<Rightarrow>
   MultiHeadAttention \<times> (error + tensor3)" where
  "attend m keep queries keys vals' =
     (case attention_scores (self_k m) queries keys of
        Inl e \<Rightarrow> (m, Inl e)
      | Inr s \<Rightarrow>
        (let m1 = m\<lparr>self_scores := Some s\<rparr>;
             m2 = m1\<lparr>self_scores := Some (softmax_last s)\<rparr>;
             m3 = (case self_dropout m2 of None \<Rightarrow> m2
                   | Some p \<Rightarrow>
                     m2\<lparr>self_scores :=
                          Some (Dropout_forward p (training m2) keep (softmax_last s))\<rparr>)
         in (m3, case self_scores m3 of
                   None \<Rightarrow> Inl (TypeError ''bmm(): argument must be Tensor, not NoneType'')
                 | Some w \<Rightarrow> bmm w vals')))"

text \<open>
  \<open>MultiHeadAttention.forward\<close>, lines 75 to 128. The argument \<open>mask\<close> (here
  \<open>mask_arg\<close>) is in the signature and is not read by the body.
\<close>

definition MultiHeadAttention_forward ::
  "MultiHeadAttention \<Rightarrow> (nat \<Rightarrow> nat \<Rightarrow> nat \<Rightarrow> bool) \<Rightarrow> tensor3 \<Rightarrow> tensor3 \<Rightarrow> tensor3 \<Rightarrow>
   string option \<Rightarrow> MultiHeadAttention \<times> (error + tensor)" where
  "MultiHeadAttention_forward m keep query key val mask_arg =
     (case project m query key val of
        Inl e \<Rightarrow> (m, Inl e)
      | Inr (queries, keys, vals') \<Rightarrow>
        (case attend m keep queries keys vals' of (m', r) \<Rightarrow>
           (m', ebind r (\<lambda>attention.
                ebind (concat_heads (self_h m) attention) (\<lambda>attention_heads.
                ebind (Linear_forward (self_W_o m) attention_heads) (\<lambda>self_attention.
                Inr (squeeze self_attention)))))))"

text \<open>
  The attention of section 4.1 of the spec, in its words: the scores are the dot
  products of a query row with every key row, divided by \<open>sqrt dk\<close>; each query row is
  normalised by softmax over the keys; the result is the weighted sum of the value rows.
\<close>

definition spec_weights :: "nat \<Rightarrow> real list \<Rightarrow> real list list \<Rightarrow> real list" where
  "spec_weights dk qrow K = softmax_row (map (\<lambda>krow. dot qrow krow / sqrt (real dk)) K)"

definition spec_attention :: "nat \<Rightarrow> tensor3 \<Rightarrow> tensor3 \<Rightarrow> tensor3 \<Rightarrow> tensor3" where
  "spec_attention dk Q K V =
     (case dims Q of (n, lq, _) \<Rightarrow>
      case dims V of (_, _, dv) \<Rightarrow>
        \<lparr> dims = (n, lq, dv),
          vals = map (\<lambda>b. map (\<lambda>qrow.
                   map (\<lambda>c. sum_list (map2 (\<lambda>w vrow. w * vrow ! c)
                                         (spec_weights dk qrow (vals K ! b)) (vals V ! b)))
                     [0..<dv])
                   (vals Q ! b)) [0..<n] \<rparr>)"

section \<open>Properties of the constructor of FinalModel\<close>

lemma ebind_Inl [simp]: "ebind (Inl e) f = Inl e"
  by (simp add: ebind_def)

lemma ebind_Inr [simp]: "ebind (Inr x) f = f x"
  by (simp add: ebind_def)

lemmas init_defs = FinalModel_init_def check_config_def check_divisible_def check_design_def
  py_assert_def ebind_def default_config_def truthy_int_opt_def build_starting_conv_def
  build_starting_norm_def construct_def read_local_def build_conv_blocks_def
  out_channel_blocks_def construct_opt_def first_args_def second_args_def valid_down_sample_def
  build_attention_def attention_args_def construct_seq_def construct_all_def
  build_final_activation_def

lemma str_contains_empty: "str_contains b []"
  by (cases b) simp_all

lemma str_contains_self_prefix: "str_contains (t @ b) t"
  by (cases t) (simp_all add: str_contains_empty)

lemma str_contains_append: "str_contains (a @ t @ b) t"
proof (induction a)
  case Nil
  show ?case using str_contains_self_prefix by simp
next
  case (Cons c a)
  then show ?case by simp
qed

lemma msg_attention_type_names: "str_contains (msg_attention_type t) t"
  unfolding msg_attention_type_def by (rule str_contains_append)

lemma check_config_down_sample:
  "\<not> valid_down_sample (down_sample c) \<Longrightarrow>
   check_config c = Inl (AssertionError msg_down_sample)"
  by (simp add: check_config_def valid_down_sample_def py_assert_def)

lemma build_attention_invalid:
  "attention_type c \<notin> {''v1'', ''v2'', ''v3'', ''v4'', ''v5''} \<Longrightarrow>
   build_attention raises c = Inl (ValueError (msg_attention_type (attention_type c)))"
  by (simp add: build_attention_def)

lemma init_fails_if_attention_fails:
  "isl (build_attention raises c) \<Longrightarrow> isl (FinalModel_init raises c)"
  unfolding FinalModel_init_def
  by (cases "build_attention raises c") (simp_all add: ebind_def split: sum.split)

lemma init_check_error: "check_config c = Inl e \<Longrightarrow> FinalModel_init raises c = Inl e"
  by (simp add: FinalModel_init_def)

lemma check_design_non_preact:
  "\<not> use_pre_activation_design c \<Longrightarrow>
   check_design c = (if norm_before_act c = Some False
                     then Inl (AssertionError msg_norm_before_act) else Inr ())"
  by (cases "norm_before_act c") (auto simp: check_design_def py_assert_def)

lemma check_config_fails_if_design_fails: "isl (check_design c) \<Longrightarrow> isl (check_config c)"
  unfolding check_config_def
  by (cases "check_design c") (simp_all add: ebind_def split: sum.split)

lemma check_config_design_error:
  assumes "down_sample c = ''conv'' \<or> down_sample c = ''max_pool'' \<or> down_sample c = ''avg_pool''"
    and "use_reduced_head_dims c = None" and "attention_activation_function c = None"
  shows "check_config c = check_design c"
  using assms by (simp add: check_config_def py_assert_def check_divisible_def truthy_int_opt_def)

text \<open>
  C1 (the code departs from the claim). The configuration
  \<open>use_pre_activation_design=False, pos_skip="none"\<close> is invalid (\<open>pos_skip\<close> is none of
  \<open>all\<close>, \<open>not_last\<close>, \<open>not_first\<close>), yet no assertion looks at \<open>pos_skip\<close> in this design:
  construction succeeds and leaves \<open>_first_conv_block_1\<close> unset, and every forward pass,
  whatever the input and the behaviour of the sub-modules, raises \<open>AttributeError\<close> at
  line 309.
\<close>

theorem invalid_pos_skip_fails_in_forward:
  "\<exists>m. FinalModel_init spec_raises
         ((default_config False True)
            \<lparr>use_pre_activation_design := False, pos_skip := ''none''\<rparr>) = Inr m
       \<and> self_first_conv_block_1 m = None
       \<and> fst (FinalModel_forward E m x s) = Inl (AttributeError ''_first_conv_block_1'')"
  by (simp add: init_defs FinalModel_forward_def conv_stage_def call_attr_def sbind_def
      slift_def)

text \<open>
  C4, as stated, fails: with \<open>use_pre_activation_design=False\<close> the constructor rejects
  \<open>norm_before_act=False\<close> (the assertion of line 55) and accepts \<open>norm_before_act=True\<close>,
  the opposite of the claim.
\<close>

theorem norm_before_act_counterexample:
  "FinalModel_init spec_raises
     ((default_config False True)
        \<lparr>use_pre_activation_design := False, norm_before_act := Some False\<rparr>)
     = Inl (AssertionError msg_norm_before_act)
   \<and> \<not> isl (FinalModel_init spec_raises
     ((default_config False True)
        \<lparr>use_pre_activation_design := False, norm_before_act := Some True\<rparr>))"
  by (simp add: init_defs)

text \<open>
  C4, amended. Without the pre-activation design, the assertion of line 55 passes exactly
  when \<open>norm_before_act\<close> is \<open>True\<close> or \<open>None\<close>; with \<open>norm_before_act=False\<close> construction
  fails, and when the assertions before it pass (valid downsampling, no reduced head
  dimensions, no attention activation function) it fails with the message
  "Norm after activation not possible without preactivation design".
\<close>

theorem non_preactivation_requires_norm_before_act:
  assumes "\<not> use_pre_activation_design c"
  shows "check_design c = (if norm_before_act c = Some False
                           then Inl (AssertionError msg_norm_before_act) else Inr ())
    \<and> (norm_before_act c = Some False \<longrightarrow> isl (FinalModel_init raises c))
    \<and> (norm_before_act c = Some False \<and> valid_down_sample (down_sample c) \<and>
         use_reduced_head_dims c = None \<and> attention_activation_function c = None \<longrightarrow>
         FinalModel_init raises c = Inl (AssertionError msg_norm_before_act))"
proof (intro conjI impI)
  show d: "check_design c = (if norm_before_act c = Some False
                             then Inl (AssertionError msg_norm_before_act) else Inr ())"
    using assms by (rule check_design_non_preact)
  {
    assume f: "norm_before_act c = Some False"
    then have "isl (check_config c)"
      using d by (intro check_config_fails_if_design_fails) simp
    then obtain e where "check_config c = Inl e"
      by (cases "check_config c") simp_all
    then show "isl (FinalModel_init raises c)"
      by (simp add: init_check_error)
  }
  {
    assume h: "norm_before_act c = Some False \<and> valid_down_sample (down_sample c) \<and>
         use_reduced_head_dims c = None \<and> attention_activation_function c = None"
    have "check_config c = check_design c"
      using h by (intro check_config_design_error) (simp_all add: valid_down_sample_def)
    then show "FinalModel_init raises c = Inl (AssertionError msg_norm_before_act)"
      using d h by (simp add: init_check_error)
  }
qed

theorem non_preactivation_requires_norm_before_act_witness:
  "\<not> use_pre_activation_design
       ((default_config False True)
          \<lparr>use_pre_activation_design := False, norm_before_act := Some False\<rparr>)
   \<and> check_design ((default_config False True)
          \<lparr>use_pre_activation_design := False, norm_before_act := Some False\<rparr>)
       = Inl (AssertionError msg_norm_before_act)
   \<and> FinalModel_init spec_raises ((default_config False True)
          \<lparr>use_pre_activation_design := False, norm_before_act := Some False\<rparr>)
       = Inl (AssertionError msg_norm_before_act)
   \<and> check_design ((default_config False True)
          \<lparr>use_pre_activation_design := False, norm_before_act := None\<rparr>) = Inr ()"
  using non_preactivation_requires_norm_before_act
    [where c = "(default_config False True)
          \<lparr>use_pre_activation_design := False, norm_before_act := Some False\<rparr>"
       and raises = spec_raises]
    non_preactivation_requires_norm_before_act
    [where c = "(default_config False True)
          \<lparr>use_pre_activation_design := False, norm_before_act := None\<rparr>"
       and raises = spec_raises]
  by (simp add: default_config_def valid_down_sample_def)

text \<open>
  C6, as stated, fails: an invalid \<open>down_sample\<close> is rejected with a fixed message that
  lists the allowed values and does not name the invalid one.
\<close>

theorem invalid_down_sample_message_counterexample:
  "FinalModel_init spec_raises ((default_config False True)\<lparr>down_sample := ''linear''\<rparr>)
     = Inl (AssertionError msg_down_sample)
   \<and> \<not> str_contains msg_down_sample ''linear''"
  by (simp add: init_defs msg_down_sample_def)

text \<open>
  C6, amended. An invalid \<open>down_sample\<close> fails construction at the first assertion, with
  the fixed message "Downsampling should either be conv or max_pool or avg_pool". An
  invalid \<open>attention_type\<close> never constructs a model: the \<open>match\<close> of line 239 raises
  \<open>ValueError\<close> with a message that names the given type, unless an earlier step of the
  constructor has already failed. (What an invalid \<open>norm_type\<close> does is left out.)
\<close>

theorem invalid_enumerations_fail_construction:
  "(\<not> valid_down_sample (down_sample c) \<longrightarrow>
      FinalModel_init raises c = Inl (AssertionError msg_down_sample))
   \<and> (attention_type c \<notin> {''v1'', ''v2'', ''v3'', ''v4'', ''v5''} \<longrightarrow>
        isl (FinalModel_init raises c)
        \<and> build_attention raises c = Inl (ValueError (msg_attention_type (attention_type c)))
        \<and> str_contains (msg_attention_type (attention_type c)) (attention_type c))"
proof (intro conjI impI)
  assume "\<not> valid_down_sample (down_sample c)"
  then show "FinalModel_init raises c = Inl (AssertionError msg_down_sample)"
    by (simp add: init_check_error check_config_down_sample)
next
  assume a: "attention_type c \<notin> {''v1'', ''v2'', ''v3'', ''v4'', ''v5''}"
  show "build_attention raises c = Inl (ValueError (msg_attention_type (attention_type c)))"
    using a by (rule build_attention_invalid)
  then show "isl (FinalModel_init raises c)"
    by (intro init_fails_if_attention_fails) simp
  show "str_contains (msg_attention_type (attention_type c)) (attention_type c)"
    by (rule msg_attention_type_names)
qed

theorem invalid_enumerations_fail_construction_witness:
  "\<not> valid_down_sample (down_sample ((default_config False True)\<lparr>down_sample := ''linear''\<rparr>))
   \<and> FinalModel_init spec_raises ((default_config False True)\<lparr>down_sample := ''linear''\<rparr>)
       = Inl (AssertionError msg_down_sample)
   \<and> attention_type ((default_config False True)\<lparr>attention_type := ''v6''\<rparr>)
       \<notin> {''v1'', ''v2'', ''v3'', ''v4'', ''v5''}
   \<and> isl (FinalModel_init spec_raises ((default_config False True)\<lparr>attention_type := ''v6''\<rparr>))
   \<and> FinalModel_init spec_raises ((default_config False True)\<lparr>attention_type := ''v6''\<rparr>)
       = Inl (ValueError ''Attention type v6 not supported!'')"
  using invalid_enumerations_fail_construction
    [of "(default_config False True)\<lparr>down_sample := ''linear''\<rparr>" spec_raises]
    invalid_enumerations_fail_construction
    [of "(default_config False True)\<lparr>attention_type := ''v6''\<rparr>" spec_raises]
  by (simp add: init_defs msg_attention_type_def)

text \<open>
  What an invalid \<open>norm_type\<close> does when the pre-convolution is built: the name
  \<open>starting_norm\<close> is never bound, and reading it raises \<open>UnboundLocalError\<close>.
\<close>

lemma invalid_norm_type_unbound_local:
  "FinalModel_init spec_raises ((default_config False True)\<lparr>norm_type := ''LN''\<rparr>)
     = Inl (UnboundLocalError ''starting_norm'')"
  by (simp add: init_defs)

section \<open>Properties of the forward pass of FinalModel\<close>

lemma call_recording [simp]:
  "call (recording f p it) name l v s = (f name l v, s @ [(name, v)])"
  by (simp add: recording_def)

lemma fsc_append: "first_stage_calls (a @ b) = first_stage_calls a @ first_stage_calls b"
  by (simp add: first_stage_calls_def)

lemma fsc_other:
  "name \<notin> {''_first_conv_block_1'', ''_first_conv_block_2'', ''_first_conv_block_3'',
             ''_first_conv_block_4''} \<Longrightarrow> first_stage_calls [(name, v)] = []"
  by (simp add: first_stage_calls_def)

lemma fsc_first:
  "name \<in> {''_first_conv_block_1'', ''_first_conv_block_2'', ''_first_conv_block_3'',
             ''_first_conv_block_4''} \<Longrightarrow> first_stage_calls [(name, v)] = [(name, v)]"
  by (simp add: first_stage_calls_def)

lemma quiet_sreturn: "first_stage_calls (snd (sreturn x s)) = first_stage_calls s"
  by (simp add: sreturn_def)

lemma quiet_slift: "first_stage_calls (snd (slift r s)) = first_stage_calls s"
  by (simp add: slift_def)

lemma quiet_call:
  "name \<notin> {''_first_conv_block_1'', ''_first_conv_block_2'', ''_first_conv_block_3'',
             ''_first_conv_block_4''} \<Longrightarrow>
   first_stage_calls (snd (call (recording f p it) name l v s)) = first_stage_calls s"
  by (simp add: fsc_append fsc_other)

lemma quiet_call_attr:
  "name \<notin> {''_first_conv_block_1'', ''_first_conv_block_2'', ''_first_conv_block_3'',
             ''_first_conv_block_4''} \<Longrightarrow>
   first_stage_calls (snd (call_attr (recording f p it) name attr v s)) = first_stage_calls s"
  by (cases attr) (simp_all add: call_attr_def quiet_slift quiet_call del: call_recording)

lemma quiet_sbind:
  assumes "\<And>s. first_stage_calls (snd (a s)) = first_stage_calls s"
    and "\<And>x s. first_stage_calls (snd (g x s)) = first_stage_calls s"
  shows "first_stage_calls (snd (sbind a g s)) = first_stage_calls s"
proof (cases "a s")
  case (Pair r s')
  have "first_stage_calls s' = first_stage_calls s"
    using assms(1)[of s] Pair by simp
  then show ?thesis
    using Pair assms(2) by (cases r) (simp_all add: sbind_def)
qed

lemma quiet_case_prod:
  assumes "\<And>a b s. first_stage_calls (snd (g a b s)) = first_stage_calls s"
  shows "first_stage_calls (snd (case_prod g x s)) = first_stage_calls s"
  using assms by (cases x) simp

lemma sbind_quiet_tail:
  assumes "\<And>x s. first_stage_calls (snd (g x s)) = first_stage_calls s"
  shows "first_stage_calls (snd (sbind a g s)) = first_stage_calls (snd (a s))"
proof (cases "a s")
  case (Pair r s')
  then show ?thesis
    using assms by (cases r) (simp_all add: sbind_def)
qed

lemma forward_first_stage_calls:
  "first_stage_calls (snd (FinalModel_forward (recording f p it) m x s)) =
   first_stage_calls (snd (conv_stage (recording f p it) m x s))"
  unfolding FinalModel_forward_def
  apply (rule sbind_quiet_tail)
  apply (intro quiet_sbind quiet_case_prod quiet_slift quiet_call)
         apply simp_all
  apply (auto intro!: quiet_call_attr quiet_sreturn)
  done

lemma sbind_call_first:
  assumes "name \<in> {''_first_conv_block_1'', ''_first_conv_block_2'', ''_first_conv_block_3'',
             ''_first_conv_block_4''}"
  shows "first_stage_calls (snd (sbind (call_attr (recording f p it) name attr v) g s)) =
     (case attr of None \<Rightarrow> first_stage_calls s
      | Some l \<Rightarrow> (case f name l v of Inl e \<Rightarrow> first_stage_calls s @ [(name, v)]
                    | Inr v' \<Rightarrow> first_stage_calls (snd (g v' (s @ [(name, v)])))))"
  using assms
  by (cases attr; cases "f name (the attr) v")
     (simp_all add: sbind_def call_attr_def slift_def fsc_append fsc_first)

lemma second_stage_quiet:
  "first_stage_calls (snd (sbind
      (if self_pos_skip m = ''all'' then
         call_attr (recording f p it) ''_second_conv_block_1'' (self_second_conv_block_1 m) x
       else if self_pos_skip m = ''not_last'' then
         sbind (slift (unpack2 (recording f p it) x)) (\<lambda>(x, residuals).
         call_attr (recording f p it) ''_second_conv_block_1'' (self_second_conv_block_1 m) x)
       else sreturn x) (\<lambda>x.
      if self_pos_skip m = ''all'' then
        sbind (slift (unpack2 (recording f p it) x)) (\<lambda>(x, residuals). sreturn x)
      else sreturn x) s)) = first_stage_calls s"
  apply (rule quiet_sbind)
   apply (auto intro!: quiet_call_attr quiet_sreturn quiet_sbind quiet_case_prod quiet_slift)
  done


lemma conv_stage_first_stage_calls:
  assumes "self_use_pre_activation_design m"
  shows "first_stage_calls (snd (conv_stage (recording f p it) m x [])) =
     (case after_pre_conv f m x of Inl e \<Rightarrow> []
      | Inr x0 \<Rightarrow> accumulator_chain f (first_stage_blocks m) (Tuple [x0, x0]))"
proof -
  let ?E = "recording f p it"
  have blocks: "\<And>v s. first_stage_calls (snd (
        sbind (call_attr ?E ''_first_conv_block_1'' (self_first_conv_block_1 m) v) (\<lambda>x.
        sbind (call_attr ?E ''_first_conv_block_2'' (self_first_conv_block_2 m) x) (\<lambda>x.
        sbind (call_attr ?E ''_first_conv_block_3'' (self_first_conv_block_3 m) x) (\<lambda>x.
        sbind (call_attr ?E ''_first_conv_block_4'' (self_first_conv_block_4 m) x) (\<lambda>x.
        sbind (if self_pos_skip m = ''all'' then
                 call_attr ?E ''_second_conv_block_1'' (self_second_conv_block_1 m) x
               else if self_pos_skip m = ''not_last'' then
                 sbind (slift (unpack2 ?E x)) (\<lambda>(x, residuals).
                 call_attr ?E ''_second_conv_block_1'' (self_second_conv_block_1 m) x)
               else sreturn x) (\<lambda>x.
        if self_pos_skip m = ''all'' then
          sbind (slift (unpack2 ?E x)) (\<lambda>(x, residuals). sreturn x)
        else sreturn x))))) s))
      = first_stage_calls s @ accumulator_chain f (first_stage_blocks m) v"
    by (simp add: sbind_call_first second_stage_quiet fsc_append fsc_first
        first_stage_blocks_def split: option.split sum.split)
      (simp add: first_stage_calls_def)
  show ?thesis
  proof (cases "self_use_pre_conv m")
    case False
    then show ?thesis
      using assms blocks[of "Tuple [x, x]" "[]"]
      by (simp add: conv_stage_def after_pre_conv_def sbind_def sreturn_def first_stage_calls_def)
  next
    case True
    show ?thesis
    proof (cases "self_starting_conv m")
      case None
      then show ?thesis
        using assms True
        by (simp add: conv_stage_def after_pre_conv_def sbind_def call_attr_def slift_def
            first_stage_calls_def)
    next
      case (Some sc)
      show ?thesis
      proof (cases "f ''_starting_conv'' sc x")
        case (Inl e)
        then show ?thesis
          using assms True Some
          by (simp add: conv_stage_def after_pre_conv_def sbind_def call_attr_def
              first_stage_calls_def)
      next
        case (Inr x0)
        then show ?thesis
          using assms True Some blocks[of "Tuple [x0, x0]" "[(''_starting_conv'', x)]"]
          by (simp add: conv_stage_def after_pre_conv_def sbind_def call_attr_def
              first_stage_calls_def)
      qed
    qed
  qed
qed

text \<open>
  C10. With the pre-activation design, the calls that a forward pass makes to the four
  first-stage blocks are exactly the accumulator chain seeded with the pair \<open>(x, x)\<close>,
  where \<open>x\<close> is the input after the optional pre-convolution: the first block receives
  \<open>(x, x)\<close> and each later block receives, unchanged, what its predecessor returned. (No
  block is called when the pre-convolution raises, and the chain stops at a block that
  raises.)
\<close>

theorem residual_chain_seeded_with_input:
  assumes "self_use_pre_activation_design m"
  shows "first_stage_calls (snd (FinalModel_forward (recording f p it) m x [])) =
     (case after_pre_conv f m x of Inl e \<Rightarrow> []
      | Inr x0 \<Rightarrow> accumulator_chain f (first_stage_blocks m) (Tuple [x0, x0]))"
  using assms by (simp add: forward_first_stage_calls conv_stage_first_stage_calls)

theorem residual_chain_seeded_with_input_witness:
  "self_use_pre_activation_design (projr (FinalModel_init spec_raises (default_config False True)))
   \<and> first_stage_calls (snd (FinalModel_forward
        (recording
           (\<lambda>name l v. case v of Tensor a \<Rightarrow> Inr (Tensor (Suc a))
              | Tuple vs \<Rightarrow> (case vs of [Tensor a, Tensor b] \<Rightarrow>
                    Inr (Tuple [Tensor (2 * a), Tensor (a + b)])
                  | _ \<Rightarrow> Inl (TypeError ''pair expected'')))
           (\<lambda>t ds. Inr t) (\<lambda>t. Inl (TypeError ''iteration over a 0-d tensor'')))
        (projr (FinalModel_init spec_raises (default_config False True)))
        (Tensor (5::nat)) []))
     = [(''_first_conv_block_1'', Tuple [Tensor 6, Tensor 6]),
        (''_first_conv_block_2'', Tuple [Tensor 12, Tensor 12]),
        (''_first_conv_block_3'', Tuple [Tensor 24, Tensor 24]),
        (''_first_conv_block_4'', Tuple [Tensor 48, Tensor 48])]"
  using residual_chain_seeded_with_input
    [where m = "projr (FinalModel_init spec_raises (default_config False True))"
       and f = "\<lambda>name l v. case v of Tensor a \<Rightarrow> Inr (Tensor (Suc a))
              | Tuple vs \<Rightarrow> (case vs of [Tensor a, Tensor b] \<Rightarrow>
                    Inr (Tuple [Tensor (2 * a), Tensor (a + b)])
                  | _ \<Rightarrow> Inl (TypeError ''pair expected''))"
       and p = "\<lambda>t ds. Inr t" and it = "\<lambda>t. Inl (TypeError ''iteration over a 0-d tensor'')"
       and x = "Tensor (5::nat)"]
  by (simp add: init_defs after_pre_conv_def first_stage_blocks_def)

section \<open>Properties of the head split and concatenation\<close>

lemma offsets_replicate:
  "offsets off (replicate h d) = map (\<lambda>j. (off + j * d, d)) [0..<h]"
proof (induction h arbitrary: off)
  case 0
  show ?case by simp
next
  case (Suc h)
  have "map (\<lambda>j. (off + j * d, d)) [0..<Suc h] =
        (off, d) # map (\<lambda>j. (off + Suc j * d, d)) [0..<h]"
    by (simp add: upt_conv_Cons map_Suc_upt [symmetric] del: upt_Suc)
  also have "\<dots> = (off, d) # map (\<lambda>j. ((off + d) + j * d, d)) [0..<h]"
    by (simp add: add.assoc)
  finally show ?case
    using Suc.IH [of "off + d"] by simp
qed

lemma chunk_sizes_even:
  assumes "0 < h"
  shows "chunk_sizes (h * d) h = replicate h d"
proof (cases "d = 0")
  case True
  then show ?thesis using assms by (simp add: chunk_sizes_def)
next
  case False
  have s: "(h * d + h - 1) div h = d"
  proof -
    have "h * d + h - 1 = (h - 1) + d * h" using assms by (simp add: mult.commute)
    moreover have "((h - 1) + d * h) div h = d + (h - 1) div h"
      using assms by (intro div_mult_self1) simp
    moreover have "(h - 1) div h = 0" using assms by simp
    ultimately show ?thesis by simp
  qed
  have n: "(h * d + d - 1) div d = h"
  proof -
    have "h * d + d - 1 = (d - 1) + h * d" using False by simp
    moreover have "((d - 1) + h * d) div d = h + (d - 1) div d"
      using False by (intro div_mult_self1)
    moreover have "(d - 1) div d = 0" using False by simp
    ultimately show ?thesis by simp
  qed
  have r: "replicate (h - 1) d @ [d] = replicate h d"
    using assms by (cases h) (simp_all add: replicate_append_same)
  have "h * d - d * (h - 1) = d"
    using assms by (cases h) (simp_all add: algebra_simps)
  then show ?thesis
    using False assms s n r by (simp add: chunk_sizes_def Let_def)
qed

lemma narrow_concat_block:
  assumes "\<forall>xs \<in> set xss. length xs = B" and "j < length xss"
  shows "narrow (j * B) B (concat xss) = xss ! j"
  using assms
proof (induction xss arbitrary: j)
  case Nil
  then show ?case by simp
next
  case (Cons xs xss)
  show ?case
  proof (cases j)
    case 0
    then show ?thesis using Cons.prems by (simp add: narrow_def)
  next
    case (Suc j')
    have "narrow (j' * B) B (concat xss) = xss ! j'"
      using Cons.IH [of j'] Cons.prems Suc by simp
    then show ?thesis
      using Cons.prems Suc by (simp add: narrow_def)
  qed
qed

lemma concat_narrow_pieces:
  "length row = h * d \<Longrightarrow> concat (map (\<lambda>j. narrow (j * d) d row) [0..<h]) = row"
proof (induction h arbitrary: row)
  case 0
  then show ?case by simp
next
  case (Suc h)
  have len: "length (drop d row) = h * d"
    using Suc.prems by simp
  have "map (\<lambda>j. narrow (j * d) d row) [0..<Suc h] =
        narrow 0 d row # map (\<lambda>j. narrow (Suc j * d) d row) [0..<h]"
    by (simp add: upt_conv_Cons map_Suc_upt [symmetric] del: upt_Suc)
  also have "map (\<lambda>j. narrow (Suc j * d) d row) [0..<h] =
             map (\<lambda>j. narrow (j * d) d (drop d row)) [0..<h]"
    by (simp add: narrow_def add.commute)
  finally show ?case
    using Suc.IH [OF len] by (simp add: narrow_def)
qed


lemma upt_pos: "0 < h \<Longrightarrow> [0..<h] = 0 # [1..<h]"
  by (simp add: upt_conv_Cons)

lemma sum_list_const: "sum_list (map (\<lambda>j. (c::nat)) xs) = length xs * c"
  by (induction xs) simp_all

lemma chunk_last_even:
  assumes "0 < h" and "dims t = (n, l, h * d)"
  shows "chunk_last h t =
     Inr (map (\<lambda>j. \<lparr> dims = (n, l, d), vals = map (map (narrow (j * d) d)) (vals t) \<rparr>)
            [0..<h])"
  using assms by (simp add: chunk_last_def chunk_sizes_even offsets_replicate)

lemma chunk_dim0_even:
  assumes "0 < h" and "dims t = (h * b, l, d)"
  shows "chunk_dim0 h t =
     Inr (map (\<lambda>j. \<lparr> dims = (b, l, d), vals = narrow (j * b) b (vals t) \<rparr>) [0..<h])"
  using assms by (simp add: chunk_dim0_def chunk_sizes_even offsets_replicate)

lemma cat_dim0_uniform:
  assumes "0 < h"
  shows "cat_dim0 (map (\<lambda>j. \<lparr> dims = (n, l, d), vals = g j \<rparr>) [0..<h]) =
     Inr \<lparr> dims = (h * n, l, d), vals = concat (map g [0..<h]) \<rparr>"
proof -
  have s: "sum_list (map (\<lambda>u. fst (dims u)) (map (\<lambda>j. \<lparr> dims = (n, l, d), vals = g j \<rparr>) [0..<h]))
           = h * n"
    by (simp add: o_def sum_list_const)
  have v: "concat (map vals (map (\<lambda>j. \<lparr> dims = (n, l, d), vals = g j \<rparr>) [0..<h]))
           = concat (map g [0..<h])"
    by (simp add: o_def)
  obtain u us where c: "map (\<lambda>j. \<lparr> dims = (n, l, d), vals = g j \<rparr>) [0..<h] = u # us"
    using assms by (auto simp: upt_pos)
  have du: "dims u = (n, l, d)" and dus: "list_all (\<lambda>u. snd (dims u) = (l, d)) us"
  proof -
    have "list_all (\<lambda>u. dims u = (n, l, d)) (map (\<lambda>j. \<lparr> dims = (n, l, d), vals = g j \<rparr>) [0..<h])"
      by (simp add: list_all_iff)
    then have a: "list_all (\<lambda>u. dims u = (n, l, d)) (u # us)"
      by (simp only: c)
    show "dims u = (n, l, d)" using a by simp
    show "list_all (\<lambda>u. snd (dims u) = (l, d)) us" using a by (simp add: list_all_iff)
  qed
  have "cat_dim0 (u # us) =
        Inr \<lparr> dims = (sum_list (map (\<lambda>u. fst (dims u)) (u # us)), l, d),
              vals = concat (map vals (u # us)) \<rparr>"
    using du dus by (simp add: cat_dim0_def)
  then show ?thesis
    using s v by (simp only: c [symmetric])
qed

lemma cat_last_uniform:
  assumes "0 < h"
  shows "cat_last (map (\<lambda>j. \<lparr> dims = (n, l, d), vals = g j \<rparr>) [0..<h]) =
     Inr \<lparr> dims = (n, l, h * d),
           vals = map (\<lambda>b. map (\<lambda>i. concat (map (\<lambda>j. g j ! b ! i) [0..<h])) [0..<l]) [0..<n] \<rparr>"
proof -
  have s: "sum_list (map (\<lambda>u. snd (snd (dims u)))
             (map (\<lambda>j. \<lparr> dims = (n, l, d), vals = g j \<rparr>) [0..<h])) = h * d"
    by (simp add: o_def sum_list_const)
  have v: "\<And>b i. concat (map (\<lambda>u. vals u ! b ! i)
             (map (\<lambda>j. \<lparr> dims = (n, l, d), vals = g j \<rparr>) [0..<h]))
           = concat (map (\<lambda>j. g j ! b ! i) [0..<h])"
    by (simp add: o_def)
  obtain u us where c: "map (\<lambda>j. \<lparr> dims = (n, l, d), vals = g j \<rparr>) [0..<h] = u # us"
    using assms by (auto simp: upt_pos)
  have du: "dims u = (n, l, d)"
    and dus: "list_all (\<lambda>u. fst (dims u) = n \<and> fst (snd (dims u)) = l) us"
  proof -
    have "list_all (\<lambda>u. dims u = (n, l, d)) (map (\<lambda>j. \<lparr> dims = (n, l, d), vals = g j \<rparr>) [0..<h])"
      by (simp add: list_all_iff)
    then have a: "list_all (\<lambda>u. dims u = (n, l, d)) (u # us)"
      by (simp only: c)
    show "dims u = (n, l, d)" using a by simp
    show "list_all (\<lambda>u. fst (dims u) = n \<and> fst (snd (dims u)) = l) us"
      using a by (simp add: list_all_iff)
  qed
  have "cat_last (u # us) =
        Inr \<lparr> dims = (n, l, sum_list (map (\<lambda>u. snd (snd (dims u))) (u # us))),
              vals = map (\<lambda>b. map (\<lambda>i. concat (map (\<lambda>u. vals u ! b ! i) (u # us))) [0..<l])
                       [0..<n] \<rparr>"
    using du dus by (simp add: cat_last_def)
  then show ?thesis
    using s v by (simp only: c [symmetric])
qed

lemma split_heads_even:
  assumes "0 < h" and "dims t = (n, l, h * d)"
  shows "split_heads h t =
     Inr \<lparr> dims = (h * n, l, d),
           vals = concat (map (\<lambda>j. map (map (narrow (j * d) d)) (vals t)) [0..<h]) \<rparr>"
  using assms by (simp add: split_heads_def chunk_last_even cat_dim0_uniform)

lemma concat_heads_even:
  assumes "0 < h" and "dims t = (h * b, l, d)"
  shows "concat_heads h t =
     Inr \<lparr> dims = (b, l, h * d),
           vals = map (\<lambda>b'. map (\<lambda>i. concat (map (\<lambda>j. narrow (j * b) b (vals t) ! b' ! i) [0..<h]))
                               [0..<l]) [0..<b] \<rparr>"
  using assms by (simp add: concat_heads_def chunk_dim0_even cat_last_uniform)


lemma wf3_lengths:
  assumes "wf3 t" and "dims t = (n, l, d)"
  shows "length (vals t) = n"
    and "\<And>b. b < n \<Longrightarrow> length (vals t ! b) = l"
    and "\<And>b i. b < n \<Longrightarrow> i < l \<Longrightarrow> length (vals t ! b ! i) = d"
proof -
  show n: "length (vals t) = n"
    using assms by (simp add: wf3_def)
  have all: "\<forall>m \<in> set (vals t). length m = l \<and> (\<forall>r \<in> set m. length r = d)"
    using assms by (simp add: wf3_def list_all_iff)
  show l: "\<And>b. b < n \<Longrightarrow> length (vals t ! b) = l"
    using all n by simp
  show "\<And>b i. b < n \<Longrightarrow> i < l \<Longrightarrow> length (vals t ! b ! i) = d"
  proof -
    fix b i assume b: "b < n" and i: "i < l"
    have "vals t ! b \<in> set (vals t)" using b n by simp
    then have "\<forall>r \<in> set (vals t ! b). length r = d" using all by blast
    moreover have "vals t ! b ! i \<in> set (vals t ! b)" using l [OF b] i by simp
    ultimately show "length (vals t ! b ! i) = d" by blast
  qed
qed

lemma nested_map_nth:
  assumes "length xss = n" and "\<And>b. b < n \<Longrightarrow> length (xss ! b) = l"
  shows "map (\<lambda>b. map (\<lambda>i. xss ! b ! i) [0..<l]) [0..<n] = xss"
proof (rule nth_equalityI)
  show "length (map (\<lambda>b. map (\<lambda>i. xss ! b ! i) [0..<l]) [0..<n]) = length xss"
    using assms by simp
next
  fix b assume "b < length (map (\<lambda>b. map (\<lambda>i. xss ! b ! i) [0..<l]) [0..<n])"
  then have b: "b < n" by simp
  have "map (\<lambda>i. xss ! b ! i) [0..<l] = xss ! b"
    using assms(2) [OF b] by (metis map_nth)
  then show "map (\<lambda>b. map (\<lambda>i. xss ! b ! i) [0..<l]) [0..<n] ! b = xss ! b"
    using b by simp
qed

text \<open>
  C3. For a well-formed tensor \<open>t\<close> of shape \<open>(B, L, h * d)\<close> and \<open>h\<close> heads (\<open>0 < h\<close>;
  \<open>chunk\<close> raises for \<open>h = 0\<close>), moving the heads onto the batch axis succeeds and gives
  shape \<open>(h * B, L, d)\<close>, and moving them back onto the feature axis gives \<open>t\<close> again,
  with its shape \<open>(B, L, h * d)\<close>.
\<close>

theorem split_then_concat_heads_is_identity:
  assumes "wf3 t" and "dims t = (B, L, h * d)" and "0 < h"
  shows "\<exists>s. split_heads h t = Inr s \<and> dims s = (h * B, L, d) \<and> concat_heads h s = Inr t"
proof -
  let ?G = "\<lambda>j. map (map (narrow (j * d) d)) (vals t)"
  let ?s = "\<lparr> dims = (h * B, L, d), vals = concat (map ?G [0..<h]) \<rparr>"
  have len: "length (vals t) = B"
    and lenb: "\<And>b. b < B \<Longrightarrow> length (vals t ! b) = L"
    and lenr: "\<And>b i. b < B \<Longrightarrow> i < L \<Longrightarrow> length (vals t ! b ! i) = h * d"
    using wf3_lengths [OF assms(1,2)] by simp_all
  have split: "split_heads h t = Inr ?s"
    using assms by (simp add: split_heads_even)
  have block: "\<And>j. j < h \<Longrightarrow> narrow (j * B) B (concat (map ?G [0..<h])) = ?G j"
  proof -
    fix j assume j: "j < h"
    have "narrow (j * B) B (concat (map ?G [0..<h])) = map ?G [0..<h] ! j"
      using j len by (intro narrow_concat_block) auto
    then show "narrow (j * B) B (concat (map ?G [0..<h])) = ?G j"
      using j by simp
  qed
  have entry: "\<And>b i. b < B \<Longrightarrow> i < L \<Longrightarrow>
      concat (map (\<lambda>j. narrow (j * B) B (concat (map ?G [0..<h])) ! b ! i) [0..<h])
      = vals t ! b ! i"
  proof -
    fix b i assume b: "b < B" and i: "i < L"
    have "map (\<lambda>j. narrow (j * B) B (concat (map ?G [0..<h])) ! b ! i) [0..<h]
          = map (\<lambda>j. ?G j ! b ! i) [0..<h]"
      using block by (intro map_cong) simp_all
    also have "\<dots> = map (\<lambda>j. narrow (j * d) d (vals t ! b ! i)) [0..<h]"
      using b i len lenb by simp
    finally have m: "map (\<lambda>j. narrow (j * B) B (concat (map ?G [0..<h])) ! b ! i) [0..<h]
          = map (\<lambda>j. narrow (j * d) d (vals t ! b ! i)) [0..<h]" .
    show "concat (map (\<lambda>j. narrow (j * B) B (concat (map ?G [0..<h])) ! b ! i) [0..<h])
      = vals t ! b ! i"
      by (simp only: m concat_narrow_pieces [OF lenr [OF b i]])
  qed
  have "map (\<lambda>b. map (\<lambda>i. concat (map (\<lambda>j. narrow (j * B) B (concat (map ?G [0..<h])) ! b ! i)
                                    [0..<h])) [0..<L]) [0..<B]
        = map (\<lambda>b. map (\<lambda>i. vals t ! b ! i) [0..<L]) [0..<B]"
    using entry by (intro map_cong refl) simp_all
  also have "\<dots> = vals t"
    using len lenb by (rule nested_map_nth)
  finally have v: "map (\<lambda>b. map (\<lambda>i. concat (map (\<lambda>j. narrow (j * B) B (concat (map ?G [0..<h])) ! b ! i)
                                    [0..<h])) [0..<L]) [0..<B] = vals t" .
  have "concat_heads h ?s = Inr \<lparr> dims = (B, L, h * d), vals = vals t \<rparr>"
    using assms(3) by (simp add: concat_heads_even v)
  moreover have "\<lparr> dims = (B, L, h * d), vals = vals t \<rparr> = t"
    using assms(2) by simp
  ultimately have "concat_heads h ?s = Inr t"
    by simp
  then show ?thesis
    using split by simp
qed


theorem split_then_concat_heads_is_identity_witness:
  "wf3 \<lparr> dims = (2, 1, 2), vals = [[[1, 2]], [[3, 4]]] \<rparr>
   \<and> split_heads 2 \<lparr> dims = (2, 1, 2), vals = [[[1, 2]], [[3, 4]]] \<rparr>
       = Inr \<lparr> dims = (4, 1, 1), vals = [[[1]], [[3]], [[2]], [[4]]] \<rparr>
   \<and> concat_heads 2 \<lparr> dims = (4, 1, 1), vals = [[[1]], [[3]], [[2]], [[4]]] \<rparr>
       = Inr \<lparr> dims = (2, 1, 2), vals = [[[1, 2]], [[3, 4]]] \<rparr>"
  using split_then_concat_heads_is_identity
    [where t = "\<lparr> dims = (2, 1, 2), vals = [[[1, 2]], [[3, 4]]] \<rparr>"
       and B = 2 and L = 1 and h = 2 and d = 1]
  by (simp add: wf3_def split_heads_def concat_heads_def chunk_last_def chunk_dim0_def
      cat_dim0_def cat_last_def chunk_sizes_def narrow_def ebind_def Let_def
      upt_rec [of 0 2] upt_rec [of 1 2])

section \<open>Properties of MultiHeadAttention\<close>

lemmas mha_defs = MultiHeadAttention_forward_def project_def attend_def attention_scores_def
  split_heads_def concat_heads_def chunk_last_def chunk_dim0_def cat_dim0_def cat_last_def
  chunk_sizes_def narrow_def Linear_forward_def W_k_forward_def bmm_def transpose12_def
  matmul_row_def softmax_last_def softmax_row_def Dropout_forward_def squeeze_def
  map_tensor_def dot_def MultiHeadAttention_init_def ebind_def Let_def

lemma upt2: "[0..<2] = [0, 1]"
  by (simp add: upt_rec)

lemma Linear_forward_dims:
  assumes "dims t = (n, l, in_features W)"
  shows "\<exists>y. Linear_forward W t = Inr y \<and> dims y = (n, l, out_features W)"
  using assms by (simp add: Linear_forward_def)

lemma W_k_forward_dims:
  assumes "dims t = (n, l, in_features (self_W_k m))"
  shows "\<exists>y. W_k_forward m t = Inr y \<and> dims y = (n, l, out_features (self_W_k m))"
  using Linear_forward_dims [OF assms]
  by (auto simp: W_k_forward_def map_tensor_def)

lemma split_heads_dims:
  assumes "0 < h" and "dims t = (n, l, d * h)"
  shows "\<exists>s. split_heads h t = Inr s \<and> dims s = (h * n, l, d)"
  using assms split_heads_even [of h t n l d] by (simp add: mult.commute)

lemma concat_heads_dims:
  assumes "0 < h" and "dims t = (h * b, l, d)"
  shows "\<exists>s. concat_heads h t = Inr s \<and> dims s = (b, l, h * d)"
  using assms by (simp add: concat_heads_even)

lemma attention_scores_dims:
  assumes "dims Q = (n, lq, dk)" and "dims K = (n, lk, dk)"
  shows "\<exists>s. attention_scores k Q K = Inr s \<and> dims s = (n, lq, lk)"
  using assms by (simp add: attention_scores_def bmm_def transpose12_def map_tensor_def)

lemma Dropout_forward_dims [simp]: "dims (Dropout_forward p tr keep t) = dims t"
  by (simp add: Dropout_forward_def map_tensor_def)

lemma softmax_last_dims [simp]: "dims (softmax_last t) = dims t"
  by (simp add: softmax_last_def)

lemma attend_dims:
  assumes "dims Q = (n, lq, dk)" and "dims K = (n, lk, dk)" and "dims V = (n, lk, dv)"
  shows "\<exists>a. snd (attend m keep Q K V) = Inr a \<and> dims a = (n, lq, dv)"
proof -
  obtain s where s: "attention_scores (self_k m) Q K = Inr s" and ds: "dims s = (n, lq, lk)"
    using attention_scores_dims [OF assms(1,2)] by blast
  show ?thesis
    using s ds assms(3)
    by (cases "self_dropout m") (simp_all add: attend_def Let_def bmm_def)
qed

lemma project_dims:
  assumes "0 < self_h m"
    and "dims query = (b, lq, in_features (self_W_q m))"
    and "dims key = (b, lk, in_features (self_W_k m))"
    and "dims val = (b, lk, in_features (self_W_v m))"
    and "out_features (self_W_q m) = q * self_h m"
    and "out_features (self_W_k m) = k * self_h m"
    and "out_features (self_W_v m) = v * self_h m"
  shows "\<exists>Q K V. project m query key val = Inr (Q, K, V) \<and>
           dims Q = (self_h m * b, lq, q) \<and> dims K = (self_h m * b, lk, k) \<and>
           dims V = (self_h m * b, lk, v)"
proof -
  obtain y1 where y1: "Linear_forward (self_W_q m) query = Inr y1"
      and d1: "dims y1 = (b, lq, q * self_h m)"
    using Linear_forward_dims [OF assms(2)] assms(5) by auto
  obtain Q where Q: "split_heads (self_h m) y1 = Inr Q" and dQ: "dims Q = (self_h m * b, lq, q)"
    using split_heads_dims [OF assms(1) d1] by blast
  obtain y2 where y2: "W_k_forward m key = Inr y2"
      and d2: "dims y2 = (b, lk, k * self_h m)"
    using W_k_forward_dims [OF assms(3)] assms(6) by auto
  obtain K where K: "split_heads (self_h m) y2 = Inr K" and dK: "dims K = (self_h m * b, lk, k)"
    using split_heads_dims [OF assms(1) d2] by blast
  obtain y3 where y3: "Linear_forward (self_W_v m) val = Inr y3"
      and d3: "dims y3 = (b, lk, v * self_h m)"
    using Linear_forward_dims [OF assms(4)] assms(7) by auto
  obtain V where V: "split_heads (self_h m) y3 = Inr V" and dV: "dims V = (self_h m * b, lk, v)"
    using split_heads_dims [OF assms(1) d3] by blast
  show ?thesis
    using y1 Q dQ y2 K dK y3 V dV by (simp add: project_def)
qed

text \<open>
  C8, amended. For a module made by \<open>__init__\<close> with \<open>q = k\<close> and \<open>0 < h\<close>, in either mode,
  and inputs of shapes \<open>(b, lq, d_model)\<close>, \<open>(b, lk, d_model)\<close>, \<open>(b, lk, d_model)\<close>, forward
  returns the output of \<open>W_o\<close>, of shape \<open>(b, lq, d_model)\<close>, with every axis of size one
  removed: the returned shape lists those of \<open>b\<close>, \<open>lq\<close>, \<open>d_model\<close> that are not 1. For
  \<open>lq = 1\<close> and \<open>b > 1\<close> it is \<open>(b, d_model)\<close> when \<open>d_model > 1\<close> and \<open>(b)\<close> when
  \<open>d_model = 1\<close>; for \<open>b = 1\<close> and \<open>lq = 1\<close> it is \<open>(d_model)\<close> when \<open>d_model > 1\<close> and the
  empty shape when \<open>d_model = 1\<close>.
\<close>

theorem forward_returns_squeezed_projection:
  assumes "m = (MultiHeadAttention_init dm k k v h dropout discard init)
                 \<lparr>self_scores := sc, training := tr\<rparr>"
    and "0 < h"
    and "dims query = (b, lq, dm)" and "dims key = (b, lk, dm)" and "dims val = (b, lk, dm)"
  shows "\<exists>heads y. Linear_forward (self_W_o m) heads = Inr y \<and> dims y = (b, lq, dm) \<and>
           snd (MultiHeadAttention_forward m keep query key val msk) = Inr (squeeze y) \<and>
           shape (squeeze y) = filter (\<lambda>n. n \<noteq> 1) [b, lq, dm]"
proof -
  have h: "self_h m = h" and hp: "0 < self_h m"
    using assms(1,2) by (simp_all add: MultiHeadAttention_init_def)
  obtain Q K V where p: "project m query key val = Inr (Q, K, V)"
      and dQ: "dims Q = (h * b, lq, k)" and dK: "dims K = (h * b, lk, k)"
      and dV: "dims V = (h * b, lk, v)"
    using project_dims [OF hp, of query b lq key lk val k k v] assms(1,3,4,5)
    by (auto simp: MultiHeadAttention_init_def)
  obtain a where a: "snd (attend m keep Q K V) = Inr a" and da: "dims a = (h * b, lq, v)"
    using attend_dims [OF dQ dK dV] by blast
  obtain hs where hs: "concat_heads h a = Inr hs" and dh: "dims hs = (b, lq, h * v)"
    using concat_heads_dims [OF assms(2) da] by blast
  have "dims hs = (b, lq, in_features (self_W_o m))"
    using dh assms(1) by (simp add: MultiHeadAttention_init_def)
  then obtain y where y: "Linear_forward (self_W_o m) hs = Inr y"
      and dy: "dims y = (b, lq, out_features (self_W_o m))"
    using Linear_forward_dims by blast
  have dy': "dims y = (b, lq, dm)"
    using dy assms(1) by (simp add: MultiHeadAttention_init_def)
  have "snd (MultiHeadAttention_forward m keep query key val msk) = Inr (squeeze y)"
    using p a hs y h
    by (cases "attend m keep Q K V") (simp add: MultiHeadAttention_forward_def)
  moreover have "shape (squeeze y) = filter (\<lambda>n. n \<noteq> 1) [b, lq, dm]"
    using dy' by (simp add: squeeze_def)
  ultimately show ?thesis
    using y dy' by blast
qed

theorem forward_returns_squeezed_projection_witness:
  "\<exists>y. snd (MultiHeadAttention_forward
        ((MultiHeadAttention_init 2 1 1 1 1 None False
          \<lparr> W_q_weight = [[1, 0]], W_q_bias = [0], W_k_weight = [[1, 0]], W_k_bias = [0],
           W_v_weight = [[1, 0]], W_v_bias = [0], W_o_weight = [[1], [1]], W_o_bias = [0, 0] \<rparr>)
         \<lparr>self_scores := None, training := False\<rparr>)
        (\<lambda>b i j. True)
        \<lparr> dims = (2, 1, 2), vals = [[[0, 0]], [[0, 0]]] \<rparr>
        \<lparr> dims = (2, 3, 2), vals = [[[0, 0], [0, 0], [0, 0]], [[0, 0], [0, 0], [0, 0]]] \<rparr>
        \<lparr> dims = (2, 3, 2), vals = [[[3, 0], [3, 0], [3, 0]], [[4, 0], [4, 0], [4, 0]]] \<rparr>
        None) = Inr (squeeze y)
     \<and> dims y = (2, 1, 2) \<and> shape (squeeze y) = [2, 2]"
  using forward_returns_squeezed_projection
    [where m = "(MultiHeadAttention_init 2 1 1 1 1 None False
          \<lparr> W_q_weight = [[1, 0]], W_q_bias = [0], W_k_weight = [[1, 0]], W_k_bias = [0],
           W_v_weight = [[1, 0]], W_v_bias = [0], W_o_weight = [[1], [1]], W_o_bias = [0, 0] \<rparr>)
         \<lparr>self_scores := None, training := False\<rparr>"
       and dm = 2 and k = 1 and v = 1 and h = 1 and dropout = None and discard = False
       and init = "\<lparr> W_q_weight = [[1, 0]], W_q_bias = [0], W_k_weight = [[1, 0]], W_k_bias = [0],
           W_v_weight = [[1, 0]], W_v_bias = [0], W_o_weight = [[1], [1]], W_o_bias = [0, 0] \<rparr>"
       and sc = None and tr = False and b = 2 and lq = 1 and lk = 3
       and keep = "\<lambda>b i j. True"
       and query = "\<lparr> dims = (2, 1, 2), vals = [[[0, 0]], [[0, 0]]] \<rparr>"
       and key = "\<lparr> dims = (2, 3, 2),
                    vals = [[[0, 0], [0, 0], [0, 0]], [[0, 0], [0, 0], [0, 0]]] \<rparr>"
       and val = "\<lparr> dims = (2, 3, 2),
                    vals = [[[3, 0], [3, 0], [3, 0]], [[4, 0], [4, 0], [4, 0]]] \<rparr>"
       and msk = None]
  by auto

text \<open>
  C8, as stated, fails. With batch size 2, query length 1 and \<open>d_model = 1\<close> the returned
  shape is \<open>(2)\<close>, not \<open>(b, d_model) = (2, 1)\<close>; with batch size 1, query length 1 and
  \<open>d_model = 2\<close> it is \<open>(2)\<close>: two axes are removed, the batch axis among them, not
  exactly one.
\<close>

theorem squeeze_removes_every_singleton_counterexample:
  "snd (MultiHeadAttention_forward
      (MultiHeadAttention_init 1 1 1 1 1 None False
        \<lparr> W_q_weight = [[1]], W_q_bias = [0], W_k_weight = [[1]], W_k_bias = [0],
           W_v_weight = [[1]], W_v_bias = [0], W_o_weight = [[1]], W_o_bias = [0] \<rparr>)
      (\<lambda>b i j. True)
      \<lparr> dims = (2, 1, 1), vals = [[[0]], [[0]]] \<rparr>
      \<lparr> dims = (2, 1, 1), vals = [[[0]], [[0]]] \<rparr>
      \<lparr> dims = (2, 1, 1), vals = [[[3]], [[4]]] \<rparr>
      None)
   = Inr \<lparr> shape = [2], flat = [3, 4] \<rparr>
   \<and> snd (MultiHeadAttention_forward
      (MultiHeadAttention_init 2 1 1 1 1 None False
        \<lparr> W_q_weight = [[1, 0]], W_q_bias = [0], W_k_weight = [[1, 0]], W_k_bias = [0],
           W_v_weight = [[1, 0]], W_v_bias = [0], W_o_weight = [[1], [1]], W_o_bias = [0, 0] \<rparr>)
      (\<lambda>b i j. True)
      \<lparr> dims = (1, 1, 2), vals = [[[0, 0]]] \<rparr>
      \<lparr> dims = (1, 1, 2), vals = [[[0, 0]]] \<rparr>
      \<lparr> dims = (1, 1, 2), vals = [[[3, 0]]] \<rparr>
      None)
   = Inr \<lparr> shape = [2], flat = [3, 3] \<rparr>"
  by (simp add: mha_defs upt2)

lemma map2_nth:
  assumes "length xs = n" and "length ys = n"
  shows "map2 f xs ys = map (\<lambda>i. f (xs ! i) (ys ! i)) [0..<n]"
  using assms by (intro nth_equalityI) simp_all

lemma map_nth_fun: "map (\<lambda>i. f (xs ! i)) [0..<length xs] = map f xs"
  by (intro nth_equalityI) simp_all

lemma dot_nth:
  assumes "length xs = n" and "length ys = n"
  shows "dot xs ys = sum_list (map (\<lambda>j. xs ! j * ys ! j) [0..<n])"
  using assms by (simp add: dot_def map2_nth [of xs n ys])

text \<open>A query row times the transposed keys is the list of its dot products with the key rows.\<close>

lemma matmul_row_transposed:
  assumes "length qrow = dk" and "\<forall>krow \<in> set M. length krow = dk"
  shows "matmul_row qrow (map (\<lambda>c. map (\<lambda>row. row ! c) M) [0..<dk]) (length M)
         = map (dot qrow) M"
proof -
  have "\<And>c. c < length M \<Longrightarrow>
      sum_list (map2 (\<lambda>x brow. x * brow ! c) qrow (map (\<lambda>j. map (\<lambda>row. row ! j) M) [0..<dk]))
      = dot qrow (M ! c)"
  proof -
    fix c assume c: "c < length M"
    have lc: "length (M ! c) = dk" using assms(2) c by simp
    have "map2 (\<lambda>x brow. x * brow ! c) qrow (map (\<lambda>j. map (\<lambda>row. row ! j) M) [0..<dk])
          = map (\<lambda>j. qrow ! j * (map (\<lambda>j. map (\<lambda>row. row ! j) M) [0..<dk]) ! j ! c) [0..<dk]"
      using assms(1) by (intro map2_nth) simp_all
    also have "\<dots> = map (\<lambda>j. qrow ! j * M ! c ! j) [0..<dk]"
      using c by (intro map_cong) simp_all
    finally show "sum_list (map2 (\<lambda>x brow. x * brow ! c) qrow
                     (map (\<lambda>j. map (\<lambda>row. row ! j) M) [0..<dk])) = dot qrow (M ! c)"
      using dot_nth [OF assms(1) lc] by simp
  qed
  then have "matmul_row qrow (map (\<lambda>c. map (\<lambda>row. row ! c) M) [0..<dk]) (length M)
        = map (\<lambda>c. dot qrow (M ! c)) [0..<length M]"
    unfolding matmul_row_def by (intro map_cong) simp_all
  then show ?thesis
    by (simp add: map_nth_fun)
qed


lemma wf3_rows:
  assumes "wf3 t" and "dims t = (n, l, d)" and "b < n"
  shows "length (vals t ! b) = l" and "\<forall>r \<in> set (vals t ! b). length r = d"
proof -
  have n: "length (vals t) = n"
    using assms by (simp add: wf3_def)
  have all: "\<forall>m \<in> set (vals t). length m = l \<and> (\<forall>r \<in> set m. length r = d)"
    using assms by (simp add: wf3_def list_all_iff)
  have "vals t ! b \<in> set (vals t)" using assms(3) n by simp
  then show "length (vals t ! b) = l" and "\<forall>r \<in> set (vals t ! b). length r = d"
    using all by blast+
qed

lemma attention_scores_vals:
  assumes "wf3 Q" and "wf3 K" and "dims Q = (n, lq, dk)" and "dims K = (n, lk, dk)"
  shows "attention_scores k Q K =
     Inr \<lparr> dims = (n, lq, lk),
           vals = map (\<lambda>b. map (\<lambda>qrow. map (\<lambda>krow. dot qrow krow / sqrt (real k)) (vals K ! b))
                              (vals Q ! b)) [0..<n] \<rparr>"
proof -
  have lQ: "length (vals Q) = n" and lK: "length (vals K) = n"
    using assms by (simp_all add: wf3_def)
  let ?T = "map (\<lambda>M. map (\<lambda>c. map (\<lambda>row. row ! c) M) [0..<dk]) (vals K)"
  have "map2 (\<lambda>A B. map (\<lambda>row. matmul_row row B lk) A) (vals Q) ?T
        = map (\<lambda>b. map (\<lambda>row. matmul_row row (?T ! b) lk) (vals Q ! b)) [0..<n]"
    using lQ lK by (intro map2_nth) simp_all
  also have "\<dots> = map (\<lambda>b. map (\<lambda>qrow. map (dot qrow) (vals K ! b)) (vals Q ! b)) [0..<n]"
  proof (intro map_cong refl)
    fix b qrow assume b: "b \<in> set [0..<n]" and q: "qrow \<in> set (vals Q ! b)"
    have bn: "b < n" using b by simp
    have lq: "length qrow = dk"
      using wf3_rows(2) [OF assms(1,3) bn] q by blast
    have lkb: "length (vals K ! b) = lk" and rk: "\<forall>krow \<in> set (vals K ! b). length krow = dk"
      using wf3_rows [OF assms(2,4) bn] by blast+
    have "?T ! b = map (\<lambda>c. map (\<lambda>row. row ! c) (vals K ! b)) [0..<dk]"
      using bn lK by simp
    then show "matmul_row qrow (?T ! b) lk = map (dot qrow) (vals K ! b)"
      using matmul_row_transposed [OF lq rk] lkb by simp
  qed
  finally have v: "map2 (\<lambda>A B. map (\<lambda>row. matmul_row row B lk) A) (vals Q) ?T
        = map (\<lambda>b. map (\<lambda>qrow. map (dot qrow) (vals K ! b)) (vals Q ! b)) [0..<n]" .
  have "bmm Q (transpose12 K) =
        Inr \<lparr> dims = (n, lq, lk),
              vals = map (\<lambda>b. map (\<lambda>qrow. map (dot qrow) (vals K ! b)) (vals Q ! b)) [0..<n] \<rparr>"
    using assms(3,4) v by (simp add: bmm_def transpose12_def)
  then show ?thesis
    by (simp add: attention_scores_def map_tensor_def o_def)
qed

lemma Dropout_forward_disabled:
  "\<not> tr \<Longrightarrow> Dropout_forward p tr keep t = t"
  by (simp add: Dropout_forward_def)

text \<open>
  C2. For well-formed queries \<open>Q\<close> of shape \<open>(n, lq, dk)\<close>, keys \<open>K\<close> of shape \<open>(n, lk, dk)\<close>
  and values \<open>V\<close> of shape \<open>(n, lk, dv)\<close>, with \<open>dk\<close> the module's \<open>k\<close> (positive) and
  dropout disabled (no dropout layer, or evaluation mode), lines 112 to 120 return
  \<open>softmax(Q K\<^sup>T / sqrt dk) V\<close>, the softmax taken over the keys for each query row, of
  shape \<open>(n, lq, dv)\<close>.
\<close>

theorem attention_core_is_scaled_dot_product:
  assumes "wf3 Q" and "wf3 K" and "wf3 V"
    and "dims Q = (n, lq, dk)" and "dims K = (n, lk, dk)" and "dims V = (n, lk, dv)"
    and "self_k m = dk" and "0 < dk"
    and "self_dropout m = None \<or> \<not> training m"
  shows "snd (attend m keep Q K V) = Inr (spec_attention dk Q K V)
         \<and> dims (spec_attention dk Q K V) = (n, lq, dv)"
proof -
  let ?W = "map (\<lambda>b. map (\<lambda>qrow. spec_weights dk qrow (vals K ! b)) (vals Q ! b)) [0..<n]"
  let ?w = "\<lparr> dims = (n, lq, lk), vals = ?W \<rparr>"
  have lV: "length (vals V) = n"
    using assms(3,6) by (simp add: wf3_def)
  have s: "attention_scores (self_k m) Q K =
     Inr \<lparr> dims = (n, lq, lk),
           vals = map (\<lambda>b. map (\<lambda>qrow. map (\<lambda>krow. dot qrow krow / sqrt (real dk)) (vals K ! b))
                              (vals Q ! b)) [0..<n] \<rparr>"
    using attention_scores_vals [OF assms(1,2,4,5)] assms(7) by simp
  have sm: "softmax_last \<lparr> dims = (n, lq, lk),
           vals = map (\<lambda>b. map (\<lambda>qrow. map (\<lambda>krow. dot qrow krow / sqrt (real dk)) (vals K ! b))
                              (vals Q ! b)) [0..<n] \<rparr> = ?w"
    by (simp add: softmax_last_def spec_weights_def o_def)
  have att: "snd (attend m keep Q K V) = bmm ?w V"
    using assms(9) s sm
    by (cases "self_dropout m") (auto simp: attend_def Let_def Dropout_forward_disabled)
  have "map2 (\<lambda>A B. map (\<lambda>row. matmul_row row B dv) A) ?W (vals V)
        = map (\<lambda>b. map (\<lambda>row. matmul_row row (vals V ! b) dv) (?W ! b)) [0..<n]"
    using lV by (intro map2_nth) simp_all
  also have "\<dots> = map (\<lambda>b. map (\<lambda>qrow. matmul_row (spec_weights dk qrow (vals K ! b))
                                       (vals V ! b) dv) (vals Q ! b)) [0..<n]"
  proof (rule map_cong [OF refl])
    fix b assume "b \<in> set [0..<n]"
    then have "?W ! b = map (\<lambda>qrow. spec_weights dk qrow (vals K ! b)) (vals Q ! b)"
      by simp
    then show "map (\<lambda>row. matmul_row row (vals V ! b) dv) (?W ! b) =
               map (\<lambda>qrow. matmul_row (spec_weights dk qrow (vals K ! b)) (vals V ! b) dv)
                 (vals Q ! b)"
      by (simp add: o_def)
  qed
  finally have "bmm ?w V = Inr (spec_attention dk Q K V)"
    using assms(4,6) by (simp add: bmm_def spec_attention_def matmul_row_def)
  moreover have "dims (spec_attention dk Q K V) = (n, lq, dv)"
    using assms(4,6) by (simp add: spec_attention_def)
  ultimately show ?thesis
    using att by simp
qed

theorem attention_core_is_scaled_dot_product_witness:
  "wf3 \<lparr> dims = (1, 1, 1), vals = [[[0]]] \<rparr>
   \<and> wf3 \<lparr> dims = (1, 2, 1), vals = [[[0], [0]]] \<rparr>
   \<and> wf3 \<lparr> dims = (1, 2, 1), vals = [[[3], [5]]] \<rparr>
   \<and> snd (attend (MultiHeadAttention_init 1 1 1 1 1 None False
                    \<lparr> W_q_weight = [[1]], W_q_bias = [0], W_k_weight = [[1]], W_k_bias = [0],
           W_v_weight = [[1]], W_v_bias = [0], W_o_weight = [[1]], W_o_bias = [0] \<rparr>)
         (\<lambda>b i j. True)
         \<lparr> dims = (1, 1, 1), vals = [[[0]]] \<rparr>
         \<lparr> dims = (1, 2, 1), vals = [[[0], [0]]] \<rparr>
         \<lparr> dims = (1, 2, 1), vals = [[[3], [5]]] \<rparr>)
       = Inr \<lparr> dims = (1, 1, 1), vals = [[[4]]] \<rparr>"
  using attention_core_is_scaled_dot_product
    [where Q = "\<lparr> dims = (1, 1, 1), vals = [[[0]]] \<rparr>"
       and K = "\<lparr> dims = (1, 2, 1), vals = [[[0], [0]]] \<rparr>"
       and V = "\<lparr> dims = (1, 2, 1), vals = [[[3], [5]]] \<rparr>"
       and n = 1 and lq = 1 and lk = 2 and dk = 1 and dv = 1
       and m = "MultiHeadAttention_init 1 1 1 1 1 None False
                    \<lparr> W_q_weight = [[1]], W_q_bias = [0], W_k_weight = [[1]], W_k_bias = [0],
           W_v_weight = [[1]], W_v_bias = [0], W_o_weight = [[1]], W_o_bias = [0] \<rparr>"
       and keep = "\<lambda>b i j. True"]
  by (simp add: wf3_def MultiHeadAttention_init_def spec_attention_def spec_weights_def
      softmax_row_def dot_def)










text \<open>
  C9, amended. After a call to forward that gets as far as the scores (the projections
  and the product of line 112 succeed), \<open>_scores\<close> holds the matrix that multiplies the
  values: the softmax-normalised weights when the module has no dropout layer or is in
  evaluation mode, and otherwise the output of dropout applied to those weights.
\<close>

theorem scores_field_after_forward:
  assumes "project m query key val = Inr (Q, K, V)"
    and "attention_scores (self_k m) Q K = Inr s"
  shows "self_scores (fst (MultiHeadAttention_forward m keep query key val msk)) =
           Some (case self_dropout m of None \<Rightarrow> softmax_last s
                 | Some p \<Rightarrow> Dropout_forward p (training m) keep (softmax_last s))
         \<and> (self_dropout m = None \<or> \<not> training m \<longrightarrow>
              self_scores (fst (MultiHeadAttention_forward m keep query key val msk)) =
                Some (softmax_last s))"
  using assms
  by (cases "self_dropout m")
     (auto simp: MultiHeadAttention_forward_def attend_def Let_def Dropout_forward_disabled)

theorem scores_field_after_forward_witness:
  "project (MultiHeadAttention_init 1 1 1 1 1 None False
             \<lparr> W_q_weight = [[1]], W_q_bias = [0], W_k_weight = [[1]], W_k_bias = [0],
           W_v_weight = [[1]], W_v_bias = [0], W_o_weight = [[1]], W_o_bias = [0] \<rparr>)
      \<lparr> dims = (1, 1, 1), vals = [[[0]]] \<rparr> \<lparr> dims = (1, 2, 1), vals = [[[0], [0]]] \<rparr>
      \<lparr> dims = (1, 2, 1), vals = [[[3], [5]]] \<rparr>
     = Inr (\<lparr> dims = (1, 1, 1), vals = [[[0]]] \<rparr>, \<lparr> dims = (1, 2, 1), vals = [[[0], [0]]] \<rparr>,
            \<lparr> dims = (1, 2, 1), vals = [[[3], [5]]] \<rparr>)
   \<and> attention_scores 1 \<lparr> dims = (1, 1, 1), vals = [[[0]]] \<rparr>
        \<lparr> dims = (1, 2, 1), vals = [[[0], [0]]] \<rparr>
     = Inr \<lparr> dims = (1, 1, 2), vals = [[[0, 0]]] \<rparr>
   \<and> self_scores (fst (MultiHeadAttention_forward
        (MultiHeadAttention_init 1 1 1 1 1 None False
          \<lparr> W_q_weight = [[1]], W_q_bias = [0], W_k_weight = [[1]], W_k_bias = [0],
           W_v_weight = [[1]], W_v_bias = [0], W_o_weight = [[1]], W_o_bias = [0] \<rparr>)
        (\<lambda>b i j. True)
        \<lparr> dims = (1, 1, 1), vals = [[[0]]] \<rparr> \<lparr> dims = (1, 2, 1), vals = [[[0], [0]]] \<rparr>
        \<lparr> dims = (1, 2, 1), vals = [[[3], [5]]] \<rparr> None))
     = Some \<lparr> dims = (1, 1, 2), vals = [[[1 / 2, 1 / 2]]] \<rparr>"
  using scores_field_after_forward
    [where m = "MultiHeadAttention_init 1 1 1 1 1 None False
          \<lparr> W_q_weight = [[1]], W_q_bias = [0], W_k_weight = [[1]], W_k_bias = [0],
           W_v_weight = [[1]], W_v_bias = [0], W_o_weight = [[1]], W_o_bias = [0] \<rparr>"
       and query = "\<lparr> dims = (1, 1, 1), vals = [[[0]]] \<rparr>"
       and key = "\<lparr> dims = (1, 2, 1), vals = [[[0], [0]]] \<rparr>"
       and val = "\<lparr> dims = (1, 2, 1), vals = [[[3], [5]]] \<rparr>"
       and Q = "\<lparr> dims = (1, 1, 1), vals = [[[0]]] \<rparr>"
       and K = "\<lparr> dims = (1, 2, 1), vals = [[[0], [0]]] \<rparr>"
       and V = "\<lparr> dims = (1, 2, 1), vals = [[[3], [5]]] \<rparr>"
       and s = "\<lparr> dims = (1, 1, 2), vals = [[[0, 0]]] \<rparr>"
       and keep = "\<lambda>b i j. True" and msk = None]
  by (simp add: mha_defs upt2)

text \<open>
  C9, as stated, fails. In training mode with dropout \<open>p = 1/2\<close> and every entry kept, the
  softmax weight of the single key is 1 and \<open>_scores\<close> holds 2 after the call.
\<close>

theorem scores_field_after_dropout_counterexample:
  "ebind (attention_scores 1 \<lparr> dims = (1, 1, 1), vals = [[[0]]] \<rparr>
            \<lparr> dims = (1, 1, 1), vals = [[[0]]] \<rparr>) (\<lambda>s. Inr (softmax_last s))
     = Inr \<lparr> dims = (1, 1, 1), vals = [[[1]]] \<rparr>
   \<and> self_scores (fst (MultiHeadAttention_forward
      (MultiHeadAttention_init 1 1 1 1 1 (Some (1 / 2)) False
        \<lparr> W_q_weight = [[1]], W_q_bias = [0], W_k_weight = [[1]], W_k_bias = [0],
           W_v_weight = [[1]], W_v_bias = [0], W_o_weight = [[1]], W_o_bias = [0] \<rparr>)
      (\<lambda>b i j. True)
      \<lparr> dims = (1, 1, 1), vals = [[[0]]] \<rparr>
      \<lparr> dims = (1, 1, 1), vals = [[[0]]] \<rparr>
      \<lparr> dims = (1, 1, 1), vals = [[[0]]] \<rparr>
      None))
   = Some \<lparr> dims = (1, 1, 1), vals = [[[2]]] \<rparr>"
  by (simp add: mha_defs)

text \<open>
  C5 (the code departs from the claim and from its own docstring). The body of forward
  never reads \<open>mask\<close>: a call with \<open>mask='subsequent'\<close> is the call with \<open>mask=None\<close>. With
  two query positions and two key positions, the weight of key 1 for query 0, a
  subsequent position, is \<open>1/2\<close> and not zero.
\<close>

theorem mask_argument_is_ignored:
  "MultiHeadAttention_forward m keep query key val (Some ''subsequent'') =
     MultiHeadAttention_forward m keep query key val None
   \<and> self_scores (fst (MultiHeadAttention_forward
        (MultiHeadAttention_init 1 1 1 1 1 None False
          \<lparr> W_q_weight = [[1]], W_q_bias = [0], W_k_weight = [[1]], W_k_bias = [0],
           W_v_weight = [[1]], W_v_bias = [0], W_o_weight = [[1]], W_o_bias = [0] \<rparr>)
        keep
        \<lparr> dims = (1, 2, 1), vals = [[[0], [0]]] \<rparr>
        \<lparr> dims = (1, 2, 1), vals = [[[0], [0]]] \<rparr>
        \<lparr> dims = (1, 2, 1), vals = [[[0], [0]]] \<rparr>
        (Some ''subsequent'')))
     = Some \<lparr> dims = (1, 2, 2), vals = [[[1 / 2, 1 / 2], [1 / 2, 1 / 2]]] \<rparr>"
  by (simp add: mha_defs upt2)

end
